theory Spec2Isabelle
  imports Complex_Main "HOL-Library.Word"
begin

section \<open>JavaScript strings and numbers\<close>

text \<open>
  A JavaScript string is a sequence of UTF-16 code units; \<open>length\<close> counts code units,
  as \<^verbatim>\<open>prompt.length\<close> does. ASCII literals of the source are written \<open>str ''...''\<close>;
  other characters are given by their code units.
\<close>

type_synonym jsstring = "16 word list"

definition str :: "string \<Rightarrow> jsstring" where
  "str s = map of_char s"

text \<open>
  \<^verbatim>\<open>String.prototype.trim\<close> removes the ECMAScript WhiteSpace and LineTerminator
  code points from both ends. All of them lie in the Basic Multilingual Plane, so each is
  one code unit.
\<close>

definition isWhiteSpace :: "16 word \<Rightarrow> bool" where
  "isWhiteSpace c \<longleftrightarrow>
     c = 0x0009 \<or> c = 0x000A \<or> c = 0x000B \<or> c = 0x000C \<or> c = 0x000D \<or> c = 0x0020 \<or>
     c = 0x00A0 \<or> c = 0x1680 \<or> (0x2000 \<le> c \<and> c \<le> 0x200A) \<or> c = 0x2028 \<or>
     c = 0x2029 \<or> c = 0x202F \<or> c = 0x205F \<or> c = 0x3000 \<or> c = 0xFEFF"

definition trim :: "jsstring \<Rightarrow> jsstring" where
  "trim s = rev (dropWhile isWhiteSpace (rev (dropWhile isWhiteSpace s)))"

text \<open>A string is truthy exactly when it is not empty.\<close>

definition truthy :: "jsstring \<Rightarrow> bool" where
  "truthy s \<longleftrightarrow> s \<noteq> []"

text \<open>\<^verbatim>\<open>a || b\<close> on strings.\<close>

definition or_else :: "jsstring \<Rightarrow> jsstring \<Rightarrow> jsstring" where
  "or_else a b = (if truthy a then a else b)"

text \<open>
  \<^verbatim>\<open>Date.now()\<close> is an integer number of milliseconds (negative before 1970); its
  magnitude stays below \<open>10\<^sup>2\<^sup>1\<close>, so \<^verbatim>\<open>toString()\<close> and template literals
  print it in plain decimal notation.
\<close>

definition digit :: "nat \<Rightarrow> 16 word" where
  "digit d = 0x30 + of_nat d"

function toStringNat :: "nat \<Rightarrow> jsstring" where
  "toStringNat n = (if n < 10 then [digit n] else toStringNat (n div 10) @ [digit (n mod 10)])"
  by pat_completeness auto
termination
  by (relation "measure (\<lambda>n. n)") auto

declare toStringNat.simps [simp del]

definition toString :: "int \<Rightarrow> jsstring" where
  "toString i = (if i < 0 then 0x2D # toStringNat (nat (- i)) else toStringNat (nat i))"

text \<open>
  The two clock reads of a handler: \<^verbatim>\<open>Date.now()\<close> and
  \<^verbatim>\<open>new Date().toISOString()\<close>. The clock is outside the program, so both are inputs.
\<close>

record clock =
  now :: int
  isoString :: jsstring

section \<open>Types (\<^verbatim>\<open>@/types\<close>)\<close>

record ColorPalette =
  primary :: jsstring
  secondary :: jsstring
  accent :: jsstring
  background :: jsstring
  text_color :: jsstring

record Typography =
  headingFont :: jsstring
  bodyFont :: jsstring
  headingWeight :: jsstring
  bodyWeight :: jsstring

datatype logo_position = TopLeft | TopRight | BottomLeft | BottomRight | Center

datatype logo_size = Small | Medium | Large

record LogoAsset =
  logo_id :: jsstring
  logo_url :: jsstring
  position :: logo_position
  logo_size :: logo_size
  opacity :: real

record BrandDNA =
  brand_id :: jsstring
  brand_name :: jsstring
  websiteUrl :: jsstring
  colors :: ColorPalette
  typography :: Typography
  logo :: "LogoAsset option"
  tone :: jsstring
  brand_keywords :: "jsstring list"
  industry :: jsstring
  extractedAt :: jsstring

datatype format_name = Png | Jpg | Webp | Pdf | Mp4 | Mov | Webm

datatype quality_name = Standard | Hd | FourK

record DownloadFormat =
  format :: format_name
  quality :: quality_name
  format_url :: jsstring
  format_size :: jsstring

datatype content_type = Image | Video

text \<open>
  \<^verbatim>\<open>platform\<close> is declared as a union of four literals, but \<^verbatim>\<open>handleGenerate\<close>
  stores the string it is given (\<^verbatim>\<open>platform as any\<close>), so the field holds a string.
\<close>

record GeneratedContent =
  content_id :: jsstring
  content_type :: content_type
  platform :: jsstring
  url :: jsstring
  thumbnailUrl :: jsstring
  prompt :: jsstring
  createdAt :: jsstring
  brandId :: jsstring
  downloadFormats :: "DownloadFormat list"

record Dimensions =
  width :: nat
  height :: nat

record Platform =
  platform_id :: jsstring
  platform_name :: jsstring
  platform_icon :: jsstring
  aspectRatio :: jsstring
  dimensions :: Dimensions

definition PLATFORMS :: "Platform list" where
  "PLATFORMS =
    [\<lparr>platform_id = str ''instagram_post'', platform_name = str ''Instagram Post'',
      platform_icon = [0xD83D, 0xDCF8], aspectRatio = str ''1:1'',
      dimensions = \<lparr>width = 1080, height = 1080\<rparr>\<rparr>,
     \<lparr>platform_id = str ''instagram_story'', platform_name = str ''Instagram Story'',
      platform_icon = [0xD83D, 0xDCF1], aspectRatio = str ''9:16'',
      dimensions = \<lparr>width = 1080, height = 1920\<rparr>\<rparr>,
     \<lparr>platform_id = str ''facebook'', platform_name = str ''Facebook Post'',
      platform_icon = [0xD83D, 0xDCD8], aspectRatio = str ''1.91:1'',
      dimensions = \<lparr>width = 1200, height = 630\<rparr>\<rparr>,
     \<lparr>platform_id = str ''linkedin'', platform_name = str ''LinkedIn Post'',
      platform_icon = [0xD83D, 0xDCBC], aspectRatio = str ''1.91:1'',
      dimensions = \<lparr>width = 1200, height = 627\<rparr>\<rparr>]"

datatype GenerationStep =
  StepUrl | StepExtracting | StepConfirm | StepLogo | StepGenerate | StepGallery

datatype stage_name =
  Idle | Crawling | AnalyzingColors | AnalyzingFonts | AnalyzingTone | Complete | StageError

record ExtractionStatus =
  stage :: stage_name
  progress :: nat
  message :: jsstring

section \<open>The page (\<^verbatim>\<open>app/page.tsx\<close>)\<close>

text \<open>
  The mock data holds three timestamps \<^verbatim>\<open>new Date().toISOString()\<close> taken when the
  module is loaded; they are inputs.
\<close>

record load_time =
  brandExtractedAt :: jsstring
  firstCreatedAt :: jsstring
  secondCreatedAt :: jsstring

definition MOCK_BRAND :: "load_time \<Rightarrow> BrandDNA" where
  "MOCK_BRAND lt =
    \<lparr>brand_id = str ''demo-1'',
     brand_name = str ''TechVenture'',
     websiteUrl = str ''https://techventure.com'',
     colors = \<lparr>primary = str ''#6366f1'', secondary = str ''#ec4899'',
       accent = str ''#06b6d4'', background = str ''#0f172a'', text_color = str ''#f8fafc''\<rparr>,
     typography = \<lparr>headingFont = str ''Space Grotesk'', bodyFont = str ''Inter'',
       headingWeight = str ''700'', bodyWeight = str ''400''\<rparr>,
     logo = None,
     tone = str ''Profesional e Innovador'',
     brand_keywords = [str ''tecnolog'' @ [0xED] @ str ''a'', str ''innovaci'' @ [0xF3] @ str ''n'',
       str ''startup'', str ''digital'', str ''futuro''],
     industry = str ''Tecnolog'' @ [0xED] @ str ''a'',
     extractedAt = brandExtractedAt lt\<rparr>"

definition MOCK_CONTENT :: "load_time \<Rightarrow> GeneratedContent list" where
  "MOCK_CONTENT lt =
    [\<lparr>content_id = str ''1'', content_type = Image, platform = str ''instagram_post'',
      url = str ''https://images.unsplash.com/photo-1611162617474-5b21e879e113?w=600'',
      thumbnailUrl = str ''https://images.unsplash.com/photo-1611162617474-5b21e879e113?w=300'',
      prompt = str ''Promoci'' @ [0xF3] @ str ''n de lanzamiento con estilo tech futurista'',
      createdAt = firstCreatedAt lt, brandId = str ''demo-1'', downloadFormats = []\<rparr>,
     \<lparr>content_id = str ''2'', content_type = Image, platform = str ''facebook'',
      url = str ''https://images.unsplash.com/photo-1460925895917-afdab827c52f?w=600'',
      thumbnailUrl = str ''https://images.unsplash.com/photo-1460925895917-afdab827c52f?w=300'',
      prompt = str ''Banner corporativo con datos y m'' @ [0xE9] @ str ''tricas'',
      createdAt = secondCreatedAt lt, brandId = str ''demo-1'', downloadFormats = []\<rparr>]"

text \<open>The state of \<^verbatim>\<open>Home\<close>: its six \<^verbatim>\<open>useState\<close> cells.\<close>

record Home =
  step :: GenerationStep
  extractionStatus :: ExtractionStatus
  brand :: "BrandDNA option"
  generatedContent :: "GeneratedContent list"
  isGenerating :: bool
  isExtracting :: bool

definition initial :: Home where
  "initial =
    \<lparr>step = StepUrl,
     extractionStatus = \<lparr>stage = Idle, progress = 0, message = []\<rparr>,
     brand = None, generatedContent = [], isGenerating = False, isExtracting = False\<rparr>"

subsection \<open>\<^verbatim>\<open>handleExtract\<close>\<close>

definition stages :: "ExtractionStatus list" where
  "stages =
    [\<lparr>stage = Crawling, progress = 20,
      message = str ''Escaneando p'' @ [0xE1] @ str ''ginas del sitio...''\<rparr>,
     \<lparr>stage = AnalyzingColors, progress = 40,
      message = str ''Extrayendo paleta de colores...''\<rparr>,
     \<lparr>stage = AnalyzingFonts, progress = 60,
      message = str ''Identificando tipograf'' @ [0xED] @ str ''as...''\<rparr>,
     \<lparr>stage = AnalyzingTone, progress = 80,
      message = str ''Analizando tono de comunicaci'' @ [0xF3] @ str ''n...''\<rparr>,
     \<lparr>stage = Complete, progress = 100,
      message = [0xA1] @ str ''ADN de marca extra'' @ [0xED] @ str ''do!''\<rparr>]"

text \<open>
  The loop \<^verbatim>\<open>for (const s of stages) { setExtractionStatus(s); await ... }\<close>: each
  iteration stores the status, which the progress view then shows for 1500 ms. The
  function returns the statuses in the order they were stored (the progress events of the
  run) and the state after the loop.
\<close>

fun extractLoop :: "ExtractionStatus list \<Rightarrow> Home \<Rightarrow> ExtractionStatus list \<times> Home" where
  "extractLoop [] h = ([], h)"
| "extractLoop (s # rest) h =
     (let h' = h\<lparr>extractionStatus := s\<rparr>;
          (events, h'') = extractLoop rest h'
      in (extractionStatus h' # events, h''))"

definition handleExtract :: "load_time \<Rightarrow> jsstring \<Rightarrow> Home \<Rightarrow> ExtractionStatus list \<times> Home" where
  "handleExtract lt u h =
     (let h1 = h\<lparr>isExtracting := True\<rparr>;
          h2 = h1\<lparr>step := StepExtracting\<rparr>;
          (events, h3) = extractLoop stages h2;
          h4 = h3\<lparr>brand := Some ((MOCK_BRAND lt)\<lparr>websiteUrl := u\<rparr>)\<rparr>;
          h5 = h4\<lparr>isExtracting := False\<rparr>
      in (events, h5\<lparr>step := StepConfirm\<rparr>))"

subsection \<open>\<^verbatim>\<open>handleConfirmBrand\<close>, \<^verbatim>\<open>handleLogoUpload\<close>\<close>

definition handleConfirmBrand :: "Home \<Rightarrow> Home" where
  "handleConfirmBrand h = h\<lparr>step := StepLogo\<rparr>"

text \<open>
  \<^verbatim>\<open>URL.createObjectURL(file)\<close> belongs to the browser; it is the parameter
  \<open>createObjectURL\<close>. The handler has no opacity argument: it stores the literal 1.
\<close>

definition handleLogoUpload ::
  "('file \<Rightarrow> jsstring) \<Rightarrow> 'file \<Rightarrow> logo_position \<Rightarrow> logo_size \<Rightarrow> Home \<Rightarrow> Home" where
  "handleLogoUpload createObjectURL file pos sz h =
     (case brand h of
        None \<Rightarrow> h
      | Some b \<Rightarrow>
          (let logoUrl = createObjectURL file;
               h1 = h\<lparr>brand := Some (b\<lparr>logo := Some
                      \<lparr>logo_id = str ''logo-1'', logo_url = logoUrl, position = pos,
                       logo_size = sz, opacity = 1\<rparr>\<rparr>)\<rparr>
           in h1\<lparr>step := StepGenerate\<rparr>))"

subsection \<open>\<^verbatim>\<open>handleGenerate\<close>\<close>

text \<open>
  \<^verbatim>\<open>MOCK_CONTENT[0]\<close>: the list literal has two elements, so the read is in range.
\<close>

definition newContent ::
  "load_time \<Rightarrow> clock \<Rightarrow> jsstring \<Rightarrow> jsstring \<Rightarrow> content_type \<Rightarrow> Home \<Rightarrow> GeneratedContent" where
  "newContent lt clk pl pr ty h =
     \<lparr>content_id = toString (now clk),
      content_type = ty,
      platform = pl,
      url = url (MOCK_CONTENT lt ! 0),
      thumbnailUrl = thumbnailUrl (MOCK_CONTENT lt ! 0),
      prompt = pr,
      createdAt = isoString clk,
      brandId = or_else (case brand h of None \<Rightarrow> [] | Some b \<Rightarrow> brand_id b) [],
      downloadFormats = []\<rparr>"

definition handleGenerate ::
  "load_time \<Rightarrow> clock \<Rightarrow> jsstring \<Rightarrow> jsstring \<Rightarrow> content_type \<Rightarrow> Home \<Rightarrow> Home" where
  "handleGenerate lt clk pl pr ty h =
     (let h1 = h\<lparr>isGenerating := True\<rparr>;
          c = newContent lt clk pl pr ty h1;
          h2 = h1\<lparr>generatedContent := c # generatedContent h1\<rparr>;
          h3 = h2\<lparr>isGenerating := False\<rparr>
      in h3\<lparr>step := StepGallery\<rparr>)"

subsection \<open>The gallery step\<close>

text \<open>
  \<^verbatim>\<open>items={generatedContent.length > 0 ? generatedContent : MOCK_CONTENT}\<close>, rendered
  only when the step is \<^verbatim>\<open>gallery\<close>.
\<close>

definition galleryItems :: "load_time \<Rightarrow> Home \<Rightarrow> GeneratedContent list" where
  "galleryItems lt h =
     (if length (generatedContent h) > 0 then generatedContent h else MOCK_CONTENT lt)"

definition galleryStep :: "load_time \<Rightarrow> Home \<Rightarrow> GeneratedContent list option" where
  "galleryStep lt h = (if step h = StepGallery then Some (galleryItems lt h) else None)"

subsection \<open>\<^verbatim>\<open>renderNavigation\<close>\<close>

record nav_step =
  nav_id :: GenerationStep
  nav_label :: jsstring
  nav_icon :: jsstring

definition steps :: "nav_step list" where
  "steps =
    [\<lparr>nav_id = StepUrl, nav_label = str ''URL'', nav_icon = [0xD83C, 0xDF10]\<rparr>,
     \<lparr>nav_id = StepConfirm, nav_label = str ''ADN'', nav_icon = [0xD83E, 0xDDEC]\<rparr>,
     \<lparr>nav_id = StepLogo, nav_label = str ''Logo'', nav_icon = [0xD83D, 0xDCCC]\<rparr>,
     \<lparr>nav_id = StepGenerate, nav_label = str ''Crear'', nav_icon = [0x2728]\<rparr>,
     \<lparr>nav_id = StepGallery, nav_label = str ''Galer'' @ [0xED] @ str ''a'',
      nav_icon = [0xD83D, 0xDDBC, 0xFE0F]\<rparr>]"

text \<open>\<^verbatim>\<open>Array.prototype.findIndex\<close>: the first index that satisfies the test, or -1.\<close>

fun findIndexFrom :: "nat \<Rightarrow> ('a \<Rightarrow> bool) \<Rightarrow> 'a list \<Rightarrow> int" where
  "findIndexFrom k P [] = - 1"
| "findIndexFrom k P (x # xs) = (if P x then int k else findIndexFrom (Suc k) P xs)"

definition findIndex :: "('a \<Rightarrow> bool) \<Rightarrow> 'a list \<Rightarrow> int" where
  "findIndex P xs = findIndexFrom 0 P xs"

definition currentIndex :: "GenerationStep \<Rightarrow> int" where
  "currentIndex cur = findIndex (\<lambda>s. nav_id s = cur) steps"

text \<open>One rendered button: its target and the three flags the source computes for it.\<close>

record nav_button =
  target :: GenerationStep
  isActive :: bool
  isCompleted :: bool
  isClickable :: bool

definition renderButton :: "GenerationStep \<Rightarrow> nat \<times> nav_step \<Rightarrow> nav_button" where
  "renderButton cur p =
     (case p of (index, s) \<Rightarrow>
        (let active = (nav_id s = cur);
             completed = (int index < currentIndex cur);
             clickable = (completed \<or> nav_id s = StepGallery)
         in \<lparr>target = nav_id s, isActive = active, isCompleted = completed,
             isClickable = clickable\<rparr>))"

definition renderNavigation :: "GenerationStep \<Rightarrow> nav_button list" where
  "renderNavigation cur = map (renderButton cur) (enumerate 0 steps)"

text \<open>\<^verbatim>\<open>onClick={() => isClickable && setStep(s.id)}\<close> on the button at position \<open>i\<close>.\<close>

definition clickNav :: "nat \<Rightarrow> Home \<Rightarrow> Home" where
  "clickNav i h =
     (let buttons = renderNavigation (step h)
      in if i < length buttons \<and> isClickable (buttons ! i)
         then h\<lparr>step := target (buttons ! i)\<rparr> else h)"

section \<open>The generation form (\<^verbatim>\<open>GenerationForm\<close>)\<close>

record GenerationForm =
  selectedPlatform :: Platform
  prompt_input :: jsstring
  contentType :: content_type

text \<open>
  \<^verbatim>\<open>handleSubmit\<close> either calls \<^verbatim>\<open>onGenerate(selectedPlatform.id, prompt, contentType)\<close>
  (the result is the argument triple) or does nothing (\<open>None\<close>).
\<close>

definition handleSubmit :: "GenerationForm \<Rightarrow> (jsstring \<times> jsstring \<times> content_type) option" where
  "handleSubmit f =
     (if truthy (trim (prompt_input f))
      then Some (platform_id (selectedPlatform f), prompt_input f, contentType f)
      else None)"

text \<open>The submit button: \<^verbatim>\<open>disabled={!prompt.trim() || isGenerating}\<close>.\<close>

definition submitDisabled :: "GenerationForm \<Rightarrow> bool \<Rightarrow> bool" where
  "submitDisabled f generating \<longleftrightarrow> \<not> truthy (trim (prompt_input f)) \<or> generating"

section \<open>The download modal (\<^verbatim>\<open>DownloadModal\<close>)\<close>

definition imageFormats :: "DownloadFormat list" where
  "imageFormats =
    [\<lparr>format = Png, quality = Hd, format_url = [], format_size = str ''~2.5 MB''\<rparr>,
     \<lparr>format = Png, quality = FourK, format_url = [], format_size = str ''~8 MB''\<rparr>,
     \<lparr>format = Jpg, quality = Hd, format_url = [], format_size = str ''~800 KB''\<rparr>,
     \<lparr>format = Webp, quality = Hd, format_url = [], format_size = str ''~400 KB''\<rparr>,
     \<lparr>format = Pdf, quality = Hd, format_url = [], format_size = str ''~3 MB''\<rparr>]"

definition videoFormats :: "DownloadFormat list" where
  "videoFormats =
    [\<lparr>format = Mp4, quality = Hd, format_url = [], format_size = str ''~15 MB''\<rparr>,
     \<lparr>format = Mp4, quality = FourK, format_url = [], format_size = str ''~50 MB''\<rparr>,
     \<lparr>format = Mov, quality = Hd, format_url = [], format_size = str ''~25 MB''\<rparr>,
     \<lparr>format = Webm, quality = Hd, format_url = [], format_size = str ''~10 MB''\<rparr>]"

definition modalFormats :: "GeneratedContent \<Rightarrow> DownloadFormat list" where
  "modalFormats item = (if content_type item = Video then videoFormats else imageFormats)"

text \<open>
  The buttons of the modal: one per entry of \<^verbatim>\<open>formats\<close>, and the quick download,
  which passes \<^verbatim>\<open>formats[0]\<close> (both lists are non-empty literals). The result is the
  argument pair of \<^verbatim>\<open>onDownload\<close>.
\<close>

datatype modal_button = FormatButton nat | QuickButton

fun modalClick :: "GeneratedContent \<Rightarrow> modal_button \<Rightarrow> (GeneratedContent \<times> DownloadFormat) option" where
  "modalClick item (FormatButton i) =
     (if i < length (modalFormats item) then Some (item, modalFormats item ! i) else None)"
| "modalClick item QuickButton = Some (item, modalFormats item ! 0)"

section \<open>The API client (\<^verbatim>\<open>lib/api\<close>) and \<^verbatim>\<open>handleDownload\<close>\<close>

text \<open>
  The network answers a \<^verbatim>\<open>fetch\<close> of a URL with a response, or the fetch rejects
  (\<open>None\<close>). The browser state records every request sent and every file handed to the
  user (\<^verbatim>\<open>link.download = filename; link.click()\<close>).
\<close>

type_synonym blob = "8 word list"

record response =
  ok :: bool
  body :: blob

type_synonym network = "jsstring \<Rightarrow> response option"

record browser =
  requests :: "jsstring list"
  saved :: "(jsstring \<times> blob) list"

datatype error = NetworkError | JsError jsstring | SyntaxError

definition downloadContent ::
  "network \<Rightarrow> jsstring \<Rightarrow> jsstring \<Rightarrow> browser \<Rightarrow> (error + unit) \<times> browser" where
  "downloadContent net u filename br =
     (let br1 = br\<lparr>requests := requests br @ [u]\<rparr>
      in case net u of
           None \<Rightarrow> (Inl NetworkError, br1)
         | Some r \<Rightarrow> (Inr (), br1\<lparr>saved := saved br1 @ [(filename, body r)]\<rparr>))"

text \<open>\<^verbatim>\<open>process.env.NEXT_PUBLIC_API_URL || 'http://localhost:8000'\<close>\<close>

definition API_BASE_URL :: "jsstring option \<Rightarrow> jsstring" where
  "API_BASE_URL env =
     or_else (case env of None \<Rightarrow> [] | Some v \<Rightarrow> v) (str ''http://localhost:8000'')"

text \<open>
  \<^verbatim>\<open>response.json()\<close> parses the body; the parser is the parameter \<open>parseJSON\<close>
  (\<open>None\<close>: the body is not JSON, and the call rejects with a SyntaxError).
\<close>

definition getDownloadUrl ::
  "(blob \<Rightarrow> 'json option) \<Rightarrow> jsstring option \<Rightarrow> network \<Rightarrow> jsstring \<Rightarrow> jsstring \<Rightarrow> jsstring
     \<Rightarrow> browser \<Rightarrow> (error + 'json) \<times> browser" where
  "getDownloadUrl parseJSON env net contentId fmt q br =
     (let u = API_BASE_URL env @ str ''/api/generation/download/'' @ contentId
                @ str ''?format='' @ fmt @ str ''&quality='' @ q;
          br1 = br\<lparr>requests := requests br @ [u]\<rparr>
      in case net u of
           None \<Rightarrow> (Inl NetworkError, br1)
         | Some r \<Rightarrow>
             if \<not> ok r then (Inl (JsError (str ''Failed to get download URL'')), br1)
             else (case parseJSON (body r) of
                     None \<Rightarrow> (Inl SyntaxError, br1)
                   | Some v \<Rightarrow> (Inr v, br1)))"

fun format_string :: "format_name \<Rightarrow> jsstring" where
  "format_string Png = str ''png''"
| "format_string Jpg = str ''jpg''"
| "format_string Webp = str ''webp''"
| "format_string Pdf = str ''pdf''"
| "format_string Mp4 = str ''mp4''"
| "format_string Mov = str ''mov''"
| "format_string Webm = str ''webm''"

definition handleDownload ::
  "network \<Rightarrow> clock \<Rightarrow> GeneratedContent \<Rightarrow> DownloadFormat \<Rightarrow> browser
     \<Rightarrow> (error + unit) \<times> browser" where
  "handleDownload net clk item fmt br =
     (let filename = platform item @ str ''_'' @ toString (now clk) @ str ''.''
                       @ format_string (format fmt)
      in downloadContent net (url item) filename br)"

section \<open>User actions on the page\<close>

text \<open>
  Each action runs its handler only where the page renders the control that triggers it;
  elsewhere the state is unchanged. Here a handler runs to its end before the next action;
  the waits inside \<^verbatim>\<open>handleExtract\<close> and \<^verbatim>\<open>handleGenerate\<close>, during which the
  page takes other actions, are the subject of the next section. Downloads do not touch the
  page state and are not actions here.
\<close>

datatype 'file action =
    Extract jsstring
  | ConfirmBrand
  | LogoUpload 'file logo_position logo_size
  | SubmitForm GenerationForm clock
  | NavClick nat
  | GenerateMore

fun fire :: "load_time \<Rightarrow> ('file \<Rightarrow> jsstring) \<Rightarrow> 'file action \<Rightarrow> Home \<Rightarrow> Home" where
  "fire lt mk (Extract u) h = (if step h = StepUrl then snd (handleExtract lt u h) else h)"
| "fire lt mk ConfirmBrand h =
     (if step h = StepConfirm \<and> brand h \<noteq> None then handleConfirmBrand h else h)"
| "fire lt mk (LogoUpload file pos sz) h =
     (if step h = StepLogo then handleLogoUpload mk file pos sz h else h)"
| "fire lt mk (SubmitForm f clk) h =
     (if step h = StepGenerate \<and> \<not> submitDisabled f (isGenerating h)
      then (case handleSubmit f of
              None \<Rightarrow> h
            | Some (pl, pr, ty) \<Rightarrow> handleGenerate lt clk pl pr ty h)
      else h)"
| "fire lt mk (NavClick i) h = clickNav i h"
| "fire lt mk GenerateMore h = (if step h = StepGallery then h\<lparr>step := StepGenerate\<rparr> else h)"

fun run :: "load_time \<Rightarrow> ('file \<Rightarrow> jsstring) \<Rightarrow> 'file action list \<Rightarrow> Home \<Rightarrow> Home" where
  "run lt mk [] h = h"
| "run lt mk (a # as) h = run lt mk as (fire lt mk a h)"

section \<open>The page with handlers in flight\<close>

text \<open>
  \<^verbatim>\<open>handleExtract\<close> and \<^verbatim>\<open>handleGenerate\<close> are asynchronous: each runs up to an
  \<^verbatim>\<open>await\<close> of a timer, and the page takes other actions until the timer has run out.
  A task is the rest of such a handler: what it has still to do, and the time before which
  its timer does not fire. \<^verbatim>\<open>handleGenerate\<close> reads \<^verbatim>\<open>brand\<close> from the render in
  which the form was submitted, so its task holds that brand.
\<close>

datatype task =
    Extraction jsstring "ExtractionStatus list" int
  | Generation "BrandDNA option" jsstring jsstring content_type int


fun due :: "task \<Rightarrow> int" where
  "due (Extraction u rest d) = d"
| "due (Generation b pl pr ty d) = d"

text \<open>
  The wall clock \<open>time\<close> is what \<^verbatim>\<open>Date.now()\<close> returns; it advances between the moves
  of the page and is never set back.
\<close>

record page =
  home :: Home
  pending :: "task list"
  time :: int

definition start :: "int \<Rightarrow> page" where
  "start t = \<lparr>home = initial, pending = [], time = t\<rparr>"

definition removeAt :: "nat \<Rightarrow> 'a list \<Rightarrow> 'a list" where
  "removeAt i xs = take i xs @ drop (Suc i) xs"

text \<open>
  \<^verbatim>\<open>handleExtract\<close> from the head of its loop: with a stage left, it stores the stage and
  waits 1500 ms; with none left, it stores the brand and opens the confirm step.
\<close>

fun extractContinue :: "load_time \<Rightarrow> jsstring \<Rightarrow> ExtractionStatus list \<Rightarrow> page \<Rightarrow> page" where
  "extractContinue lt u (s # rest) p =
     p\<lparr>home := (home p)\<lparr>extractionStatus := s\<rparr>,
       pending := pending p @ [Extraction u rest (time p + 1500)]\<rparr>"
| "extractContinue lt u [] p =
     (let h = home p;
          h4 = h\<lparr>brand := Some ((MOCK_BRAND lt)\<lparr>websiteUrl := u\<rparr>)\<rparr>;
          h5 = h4\<lparr>isExtracting := False\<rparr>
      in p\<lparr>home := h5\<lparr>step := StepConfirm\<rparr>\<rparr>)"

definition extractStart :: "load_time \<Rightarrow> jsstring \<Rightarrow> page \<Rightarrow> page" where
  "extractStart lt u p =
     (let h = home p;
          h1 = h\<lparr>isExtracting := True\<rparr>;
          h2 = h1\<lparr>step := StepExtracting\<rparr>
      in extractContinue lt u stages (p\<lparr>home := h2\<rparr>))"

text \<open>\<^verbatim>\<open>handleGenerate\<close> up to its wait of 3000 ms, and after it.\<close>

definition generateStart :: "jsstring \<Rightarrow> jsstring \<Rightarrow> content_type \<Rightarrow> page \<Rightarrow> page" where
  "generateStart pl pr ty p =
     p\<lparr>home := (home p)\<lparr>isGenerating := True\<rparr>,
       pending := pending p @ [Generation (brand (home p)) pl pr ty (time p + 3000)]\<rparr>"

definition generateFinish ::
  "load_time \<Rightarrow> clock \<Rightarrow> BrandDNA option \<Rightarrow> jsstring \<Rightarrow> jsstring \<Rightarrow> content_type \<Rightarrow> Home \<Rightarrow> Home" where
  "generateFinish lt clk b pl pr ty h =
     (let c = newContent lt clk pl pr ty (h\<lparr>brand := b\<rparr>);
          h2 = h\<lparr>generatedContent := c # generatedContent h\<rparr>;
          h3 = h2\<lparr>isGenerating := False\<rparr>
      in h3\<lparr>step := StepGallery\<rparr>)"

text \<open>
  A user action on the page as it is rendered now. The URL field and its button are
  disabled while an extraction runs (\<^verbatim>\<open>isLoading={isExtracting}\<close>), the submit button of
  the generation form while a generation runs. The synchronous handlers are those of
  \<open>fire\<close>.
\<close>

fun act :: "load_time \<Rightarrow> ('file \<Rightarrow> jsstring) \<Rightarrow> 'file action \<Rightarrow> page \<Rightarrow> page" where
  "act lt mk (Extract u) p =
     (if step (home p) = StepUrl \<and> \<not> isExtracting (home p) then extractStart lt u p else p)"
| "act lt mk (SubmitForm f clk) p =
     (if step (home p) = StepGenerate \<and> \<not> submitDisabled f (isGenerating (home p))
      then (case handleSubmit f of
              None \<Rightarrow> p
            | Some (pl, pr, ty) \<Rightarrow> generateStart pl pr ty p)
      else p)"
| "act lt mk a p = p\<lparr>home := fire lt mk a (home p)\<rparr>"

text \<open>
  The timer of the task at position \<open>i\<close> fires: the task leaves the list and its handler
  goes on. \<open>stamp\<close> is what \<^verbatim>\<open>new Date().toISOString()\<close> returns then.
\<close>

definition resume :: "load_time \<Rightarrow> nat \<Rightarrow> jsstring \<Rightarrow> page \<Rightarrow> page" where
  "resume lt i stamp p =
     (if i < length (pending p) \<and> due (pending p ! i) \<le> time p
      then (let p' = p\<lparr>pending := removeAt i (pending p)\<rparr>
            in case pending p ! i of
                 Extraction u rest d \<Rightarrow> extractContinue lt u rest p'
               | Generation b pl pr ty d \<Rightarrow>
                   p'\<lparr>home := generateFinish lt \<lparr>now = time p, isoString = stamp\<rparr> b pl pr ty (home p')\<rparr>)
      else p)"

datatype 'file move = User "'file action" | Resume nat jsstring

text \<open>A move happens some milliseconds after the one before.\<close>

fun advance :: "load_time \<Rightarrow> ('file \<Rightarrow> jsstring) \<Rightarrow> nat \<times> 'file move \<Rightarrow> page \<Rightarrow> page" where
  "advance lt mk (d, User a) p = act lt mk a (p\<lparr>time := time p + int d\<rparr>)"
| "advance lt mk (d, Resume i stamp) p = resume lt i stamp (p\<lparr>time := time p + int d\<rparr>)"

fun play :: "load_time \<Rightarrow> ('file \<Rightarrow> jsstring) \<Rightarrow> (nat \<times> 'file move) list \<Rightarrow> page \<Rightarrow> page" where
  "play lt mk [] p = p"
| "play lt mk (m # ms) p = play lt mk ms (advance lt mk m p)"

section \<open>The brands table (\<^verbatim>\<open>supabase_schema.sql\<close>)\<close>

datatype json =
  JNull | JBool bool | JNumber real | JString jsstring | JArray "json list"
  | JObject "(jsstring \<times> json) list"

type_synonym uuid = "128 word"

text \<open>
  A column of an \<^verbatim>\<open>INSERT\<close>: left out (the column default applies), \<^verbatim>\<open>NULL\<close>, or a
  value. A stored column is \<open>None\<close> for \<^verbatim>\<open>NULL\<close>.
\<close>

datatype 'a supplied = Omitted | Null | Given 'a

fun stored :: "'a option \<Rightarrow> 'a supplied \<Rightarrow> 'a option" where
  "stored dflt Omitted = dflt"
| "stored dflt Null = None"
| "stored dflt (Given v) = Some v"

record brands_values =
  val_id :: "uuid supplied"
  val_user_id :: "uuid supplied"
  val_name :: "jsstring supplied"
  val_website_url :: "jsstring supplied"
  val_colors :: "json supplied"
  val_typography :: "json supplied"
  val_logo_url :: "jsstring supplied"
  val_logo_position :: "jsstring supplied"
  val_logo_size :: "jsstring supplied"
  val_logo_opacity :: "real supplied"
  val_tone :: "jsstring supplied"
  val_keywords :: "jsstring list supplied"
  val_industry :: "jsstring supplied"
  val_tone_analysis :: "json supplied"
  val_visual_analysis :: "json supplied"
  val_extraction_status :: "jsstring supplied"
  val_created_at :: "int supplied"
  val_updated_at :: "int supplied"

record brands_row =
  col_id :: "uuid option"
  col_user_id :: "uuid option"
  col_name :: "jsstring option"
  col_website_url :: "jsstring option"
  col_colors :: "json option"
  col_typography :: "json option"
  col_logo_url :: "jsstring option"
  col_logo_position :: "jsstring option"
  col_logo_size :: "jsstring option"
  col_logo_opacity :: "real option"
  col_tone :: "jsstring option"
  col_keywords :: "jsstring list option"
  col_industry :: "jsstring option"
  col_tone_analysis :: "json option"
  col_visual_analysis :: "json option"
  col_extraction_status :: "jsstring option"
  col_created_at :: "int option"
  col_updated_at :: "int option"

text \<open>
  What an insert depends on besides the table: the caller (\<^verbatim>\<open>auth.uid()\<close>, and whether
  its role bypasses row level security), the results of \<^verbatim>\<open>uuid_generate_v4()\<close> and
  \<^verbatim>\<open>NOW()\<close>, and the ids in \<^verbatim>\<open>public.users\<close>.
\<close>

record sql_session =
  auth_uid :: "uuid option"
  bypass_rls :: bool
  uuid_generate_v4 :: uuid
  NOW :: int

record database =
  users_ids :: "uuid list"
  brands :: "brands_row list"

datatype sql_error =
  row_security_violation | not_null_violation | unique_violation | foreign_key_violation

definition default_colors :: json where
  "default_colors = JObject
     [(str ''primary'', JString (str ''#6366f1'')),
      (str ''secondary'', JString (str ''#ec4899'')),
      (str ''accent'', JString (str ''#06b6d4'')),
      (str ''background'', JString (str ''#ffffff'')),
      (str ''text'', JString (str ''#1a1a2e''))]"

definition default_typography :: json where
  "default_typography = JObject
     [(str ''headingFont'', JString (str ''Inter'')),
      (str ''bodyFont'', JString (str ''Inter'')),
      (str ''headingWeight'', JString (str ''700'')),
      (str ''bodyWeight'', JString (str ''400''))]"

text \<open>The row an insert builds: each column from the statement, or from its default.\<close>

definition new_row :: "sql_session \<Rightarrow> brands_values \<Rightarrow> brands_row" where
  "new_row ses v =
    \<lparr>col_id = stored (Some (uuid_generate_v4 ses)) (val_id v),
     col_user_id = stored None (val_user_id v),
     col_name = stored None (val_name v),
     col_website_url = stored None (val_website_url v),
     col_colors = stored (Some default_colors) (val_colors v),
     col_typography = stored (Some default_typography) (val_typography v),
     col_logo_url = stored None (val_logo_url v),
     col_logo_position = stored (Some (str ''bottom-right'')) (val_logo_position v),
     col_logo_size = stored (Some (str ''medium'')) (val_logo_size v),
     col_logo_opacity = stored (Some 1.0) (val_logo_opacity v),
     col_tone = stored (Some (str ''profesional'')) (val_tone v),
     col_keywords = stored (Some [str ''innovaci'' @ [0xF3] @ str ''n'', str ''calidad''])
       (val_keywords v),
     col_industry = stored None (val_industry v),
     col_tone_analysis = stored None (val_tone_analysis v),
     col_visual_analysis = stored None (val_visual_analysis v),
     col_extraction_status = stored (Some (str ''pending'')) (val_extraction_status v),
     col_created_at = stored (Some (NOW ses)) (val_created_at v),
     col_updated_at = stored (Some (NOW ses)) (val_updated_at v)\<rparr>"

text \<open>
  \<^verbatim>\<open>INSERT INTO public.brands\<close>. The table's constraints are: the policy
  \<^verbatim>\<open>WITH CHECK (auth.uid() = user_id)\<close> (true only when both sides are non-null and
  equal), \<^verbatim>\<open>NOT NULL\<close> on \<^verbatim>\<open>id\<close> (primary key) and \<^verbatim>\<open>name\<close>, uniqueness of \<^verbatim>\<open>id\<close>,
  and the reference from \<^verbatim>\<open>user_id\<close> to \<^verbatim>\<open>users(id)\<close>. No column of the table has a
  \<^verbatim>\<open>CHECK\<close> constraint.
\<close>

definition insert_brand :: "sql_session \<Rightarrow> brands_values \<Rightarrow> database \<Rightarrow> sql_error + database" where
  "insert_brand ses v db =
     (let row = new_row ses v in
      if \<not> bypass_rls ses \<and> \<not> (auth_uid ses \<noteq> None \<and> auth_uid ses = col_user_id row)
        then Inl row_security_violation
      else if col_id row = None \<or> col_name row = None then Inl not_null_violation
      else if col_id row \<in> set (map col_id (brands db)) then Inl unique_violation
      else if (case col_user_id row of None \<Rightarrow> False | Some u \<Rightarrow> u \<notin> set (users_ids db))
        then Inl foreign_key_violation
      else Inr (db\<lparr>brands := brands db @ [row]\<rparr>))"


section \<open>Observations and example inputs\<close>

text \<open>The logo the page currently holds, and its opacity.\<close>

definition storedLogo :: "Home \<Rightarrow> LogoAsset option" where
  "storedLogo h = (case brand h of None \<Rightarrow> None | Some b \<Rightarrow> logo b)"

definition storedOpacity :: "Home \<Rightarrow> real option" where
  "storedOpacity h = map_option opacity (storedLogo h)"

text \<open>Concrete inputs, used where a property is evaluated on an example.\<close>

definition demo_load_time :: load_time where
  "demo_load_time =
    \<lparr>brandExtractedAt = str ''2026-01-05T10:00:00.000Z'',
     firstCreatedAt = str ''2026-01-05T10:00:00.000Z'',
     secondCreatedAt = str ''2026-01-05T10:00:00.001Z''\<rparr>"

definition demo_clock :: clock where
  "demo_clock = \<lparr>now = 1767607200000, isoString = str ''2026-01-05T10:00:00.000Z''\<rparr>"

definition later_clock :: clock where
  "later_clock = \<lparr>now = 1767607203000, isoString = str ''2026-01-05T10:00:03.000Z''\<rparr>"

definition demo_form :: GenerationForm where
  "demo_form =
    \<lparr>selectedPlatform = PLATFORMS ! 0,
     prompt_input = str ''Anuncio de nuevo producto innovador'',
     contentType = Image\<rparr>"

definition demo_object_url :: "nat \<Rightarrow> jsstring" where
  "demo_object_url n = str ''blob:http://localhost:3000/'' @ toString (int n)"

text \<open>
  Two sessions on the page: one that reaches the generation form through the always
  clickable gallery button, without a logo upload, and one that follows the steps in order.
  Files are numbered.
\<close>

definition no_logo_session :: "nat action list" where
  "no_logo_session = [Extract (str ''https://example.com''), NavClick 4, GenerateMore]"

definition logo_session :: "nat action list" where
  "logo_session =
     [Extract (str ''https://example.com''), ConfirmBrand, LogoUpload 7 BottomRight Medium]"

text \<open>Two fillings of the generation form: a prompt of 501 letters, and a blank prompt.\<close>

definition long_form :: GenerationForm where
  "long_form =
    \<lparr>selectedPlatform = PLATFORMS ! 0, prompt_input = replicate 501 0x61, contentType = Image\<rparr>"

definition blank_form :: GenerationForm where
  "blank_form =
    \<lparr>selectedPlatform = PLATFORMS ! 0, prompt_input = [0x20, 0x09, 0x20], contentType = Image\<rparr>"

text \<open>
  Inputs for downloads: a generated video, the first mock image, the pdf entry of the image
  list, a server that answers every request with one body, one that answers with another,
  and a network on which every fetch is rejected.
\<close>

definition demo_video :: GeneratedContent where
  "demo_video =
     newContent demo_load_time demo_clock (str ''instagram_story'') (str ''Video de lanzamiento'')
       Video initial"

definition pdf_format :: DownloadFormat where
  "pdf_format = \<lparr>format = Pdf, quality = Hd, format_url = [], format_size = str ''~3 MB''\<rparr>"

definition first_answer :: network where
  "first_answer u = Some \<lparr>ok = True, body = [0x89, 0x50, 0x4E, 0x47]\<rparr>"

definition second_answer :: network where
  "second_answer u = Some \<lparr>ok = True, body = [0xFF, 0xD8, 0xFF, 0xE0]\<rparr>"

definition no_answer :: network where
  "no_answer u = None"

definition empty_browser :: browser where
  "empty_browser = \<lparr>requests = [], saved = []\<rparr>"

definition demo_image :: GeneratedContent where
  "demo_image = MOCK_CONTENT demo_load_time ! 0"

definition png_format :: DownloadFormat where
  "png_format = imageFormats ! 0"



text \<open>
  Sessions with handlers in flight: the page is loaded, an extraction is started, and while
  it runs the gallery button and the button for more content open the generation form,
  where a prompt is then submitted; and a session in which the extraction runs to its end,
  the brand is confirmed and a logo is uploaded.
\<close>

definition page_load :: int where
  "page_load = 1767607100000"




definition uploading :: "(nat \<times> nat move) list" where
  "uploading =
     [(0, User (Extract (str ''https://example.com''))),
      (1500, Resume 0 (str '''')), (1500, Resume 0 (str '''')), (1500, Resume 0 (str '''')),
      (1500, Resume 0 (str '''')), (1500, Resume 0 (str '''')),
      (2000, User ConfirmBrand),
      (9000, User (LogoUpload 7 BottomRight Medium))]"


text \<open>An insert into the brands table by a signed-in user, with logo opacity 1.5.\<close>

definition demo_session :: sql_session where
  "demo_session = \<lparr>auth_uid = Some 7, bypass_rls = False, uuid_generate_v4 = 1001, NOW = 1767607200\<rparr>"

definition demo_database :: database where
  "demo_database = \<lparr>users_ids = [7], brands = []\<rparr>"

definition demo_values :: brands_values where
  "demo_values =
    \<lparr>val_id = Omitted, val_user_id = Given 7, val_name = Given (str ''TechVenture''),
     val_website_url = Given (str ''https://techventure.com''),
     val_colors = Omitted, val_typography = Omitted,
     val_logo_url = Given (str ''https://example.com/logo.png''),
     val_logo_position = Omitted, val_logo_size = Omitted,
     val_logo_opacity = Given (3 / 2),
     val_tone = Omitted, val_keywords = Omitted, val_industry = Null,
     val_tone_analysis = Omitted, val_visual_analysis = Omitted,
     val_extraction_status = Omitted, val_created_at = Omitted, val_updated_at = Omitted\<rparr>"


section \<open>Properties of the extraction run\<close>

lemma extractLoop_events: "fst (extractLoop xs h) = xs"
  by (induction xs arbitrary: h) (simp_all add: Let_def case_prod_beta)

lemma extractLoop_state:
  "snd (extractLoop xs h) = (if xs = [] then h else h\<lparr>extractionStatus := last xs\<rparr>)"
  by (induction xs arbitrary: h) (simp_all add: Let_def case_prod_beta)

lemma handleExtract_events: "fst (handleExtract lt u h) = stages"
  using extractLoop_events [of stages "h\<lparr>isExtracting := True, step := StepExtracting\<rparr>"]
  by (simp add: handleExtract_def Let_def case_prod_beta)

lemma handleExtract_state:
  "snd (handleExtract lt u h) =
     h\<lparr>step := StepConfirm, extractionStatus := last stages,
       brand := Some ((MOCK_BRAND lt)\<lparr>websiteUrl := u\<rparr>), isExtracting := False\<rparr>"
  using extractLoop_state [of stages "h\<lparr>isExtracting := True, step := StepExtracting\<rparr>"]
  by (simp add: handleExtract_def Let_def case_prod_beta stages_def)

text \<open>
  C2. For every extraction run (every URL, every page state it starts from), the progress
  events come in the stage order crawling, analyzing_colors, analyzing_fonts,
  analyzing_tone, complete, with percent values exactly 20, 40, 60, 80, 100 in that order;
  the percent sequence is non-decreasing, and the run ends on the event with stage
  complete and percent 100, which is also the status the page holds afterwards.
\<close>

theorem extraction_progress_events:
  "map stage (fst (handleExtract lt u h)) =
     [Crawling, AnalyzingColors, AnalyzingFonts, AnalyzingTone, Complete]
   \<and> map progress (fst (handleExtract lt u h)) = [20, 40, 60, 80, 100]
   \<and> sorted (map progress (fst (handleExtract lt u h)))
   \<and> stage (last (fst (handleExtract lt u h))) = Complete
   \<and> progress (last (fst (handleExtract lt u h))) = 100
   \<and> extractionStatus (snd (handleExtract lt u h)) = last (fst (handleExtract lt u h))"
  by (simp add: handleExtract_events handleExtract_state stages_def)

text \<open>
  C9. For every submitted URL and every starting state, the extraction stores the fixed
  mock brand with only \<open>websiteUrl\<close> replaced by the submitted URL: its name is
  TechVenture, its colours are the five fixed hex values, and its logo is null. Nothing
  of the result depends on a crawled site.
\<close>

theorem extraction_result_is_mock_brand:
  "brand (snd (handleExtract lt u h)) = Some ((MOCK_BRAND lt)\<lparr>websiteUrl := u\<rparr>)
   \<and> (\<exists>b. brand (snd (handleExtract lt u h)) = Some b
        \<and> brand_name b = str ''TechVenture''
        \<and> colors b = \<lparr>primary = str ''#6366f1'', secondary = str ''#ec4899'',
             accent = str ''#06b6d4'', background = str ''#0f172a'', text_color = str ''#f8fafc''\<rparr>
        \<and> logo b = None
        \<and> websiteUrl b = u)"
  by (simp add: handleExtract_state MOCK_BRAND_def)

section \<open>Decimal printing is injective\<close>











section \<open>Properties of the gallery and the navigation\<close>

lemma galleryItems_cases:
  "galleryItems lt h = (if generatedContent h = [] then MOCK_CONTENT lt else generatedContent h)"
  by (simp add: galleryItems_def)

text \<open>
  C10. When the generated-content list is empty, the gallery step shows the two fixed mock
  items (ids 1 and 2) instead of an empty gallery; when the list holds at least one asset,
  it shows exactly the generated assets. In particular, right after a generation the gallery
  step shows the new asset followed by the earlier generated ones, and no mock item.
\<close>

theorem gallery_shows_mock_only_when_empty:
  "(generatedContent h = [] \<longrightarrow>
      galleryItems lt h = MOCK_CONTENT lt \<and> length (galleryItems lt h) = 2
      \<and> map content_id (galleryItems lt h) = [str ''1'', str ''2''])
   \<and> (generatedContent h \<noteq> [] \<longrightarrow> galleryItems lt h = generatedContent h)
   \<and> galleryStep lt (handleGenerate lt clk pl pr ty h)
        = Some (newContent lt clk pl pr ty h # generatedContent h)"
  by (simp add: galleryItems_cases galleryStep_def handleGenerate_def Let_def MOCK_CONTENT_def newContent_def)

theorem gallery_shows_mock_only_when_empty_witness:
  "generatedContent initial = []
   \<and> galleryItems demo_load_time initial = MOCK_CONTENT demo_load_time
   \<and> generatedContent
         (handleGenerate demo_load_time demo_clock (str ''facebook'') (str ''Hola'') Image initial)
       \<noteq> []
   \<and> galleryItems demo_load_time
         (handleGenerate demo_load_time demo_clock (str ''facebook'') (str ''Hola'') Image initial)
       = generatedContent
           (handleGenerate demo_load_time demo_clock (str ''facebook'') (str ''Hola'') Image initial)"
proof -
  have empty: "generatedContent initial = []"
    by (simp add: initial_def)
  have full: "generatedContent
      (handleGenerate demo_load_time demo_clock (str ''facebook'') (str ''Hola'') Image initial) \<noteq> []"
    by (simp add: handleGenerate_def Let_def)
  show ?thesis
    using empty full
      gallery_shows_mock_only_when_empty [of initial demo_load_time]
      gallery_shows_mock_only_when_empty
        [of "handleGenerate demo_load_time demo_clock (str ''facebook'') (str ''Hola'') Image initial"
            demo_load_time]
    by simp
qed

lemma currentIndex_values:
  "currentIndex StepUrl = 0" "currentIndex StepExtracting = - 1" "currentIndex StepConfirm = 1"
  "currentIndex StepLogo = 2" "currentIndex StepGenerate = 3" "currentIndex StepGallery = 4"
  by (simp_all add: currentIndex_def findIndex_def steps_def)

lemma renderNavigation_length: "length (renderNavigation cur) = length steps"
  by (simp add: renderNavigation_def)

lemma renderNavigation_nth:
  "i < length steps \<Longrightarrow> renderNavigation cur ! i = renderButton cur (i, steps ! i)"
  by (simp add: renderNavigation_def nth_enumerate_eq)

lemma gallery_button:
  "target (renderNavigation cur ! 4) = StepGallery \<and> isClickable (renderNavigation cur ! 4)"
proof -
  have "(4::nat) < length steps" by (simp add: steps_def)
  then have "renderNavigation cur ! 4 = renderButton cur (4, steps ! 4)"
    by (rule renderNavigation_nth)
  then show ?thesis by (simp add: renderButton_def Let_def steps_def)
qed

text \<open>
  C8. In the step navigation, for every current step (also \<open>extracting\<close>, which has no
  button and whose index is -1), the button at each position is marked completed exactly
  when its index is below the current step's index, and is clickable exactly when it is
  completed or it is the gallery button. The gallery button is therefore clickable whatever
  the current step is, and clicking it always leads to the gallery step.
\<close>

theorem nav_button_clickable:
  "length (renderNavigation cur) = length steps
   \<and> (\<forall>i < length steps.
        target (renderNavigation cur ! i) = nav_id (steps ! i)
        \<and> (isCompleted (renderNavigation cur ! i) \<longleftrightarrow> int i < currentIndex cur)
        \<and> (isClickable (renderNavigation cur ! i) \<longleftrightarrow>
             int i < currentIndex cur \<or> nav_id (steps ! i) = StepGallery))
   \<and> target (renderNavigation cur ! 4) = StepGallery
   \<and> isClickable (renderNavigation cur ! 4)
   \<and> step (clickNav 4 h) = StepGallery"
proof -
  have each: "\<forall>i < length steps.
        target (renderNavigation cur ! i) = nav_id (steps ! i)
        \<and> (isCompleted (renderNavigation cur ! i) \<longleftrightarrow> int i < currentIndex cur)
        \<and> (isClickable (renderNavigation cur ! i) \<longleftrightarrow>
             int i < currentIndex cur \<or> nav_id (steps ! i) = StepGallery)"
    by (simp add: renderNavigation_nth renderButton_def Let_def)
  have "(4::nat) < length steps" by (simp add: steps_def)
  then have click: "step (clickNav 4 h) = StepGallery"
    using gallery_button [of "step h"]
    by (simp add: clickNav_def Let_def renderNavigation_length)
  show ?thesis using each gallery_button [of cur] click
    by (simp add: renderNavigation_length)
qed

lemma clickable_targets:
  "map target (filter isClickable (renderNavigation StepUrl)) = [StepGallery]"
  "map target (filter isClickable (renderNavigation StepExtracting)) = [StepGallery]"
  "map target (filter isClickable (renderNavigation StepConfirm)) = [StepUrl, StepGallery]"
  "map target (filter isClickable (renderNavigation StepLogo)) = [StepUrl, StepConfirm, StepGallery]"
  "map target (filter isClickable (renderNavigation StepGenerate)) = [StepUrl, StepConfirm, StepLogo, StepGallery]"
  "map target (filter isClickable (renderNavigation StepGallery)) = [StepUrl, StepConfirm, StepLogo, StepGenerate, StepGallery]"
  by (simp_all add: renderNavigation_def renderButton_def steps_def currentIndex_values Let_def)

theorem nav_button_clickable_witness:
  "(4::nat) < length steps \<and> isClickable (renderNavigation StepExtracting ! 4)
   \<and> \<not> isClickable (renderNavigation StepExtracting ! 0)
   \<and> isClickable (renderNavigation StepLogo ! 1)"
proof -
  have len: "length steps = 5" by (simp add: steps_def)
  have a: "isClickable (renderNavigation StepExtracting ! 0) \<longleftrightarrow>
             int 0 < currentIndex StepExtracting \<or> nav_id (steps ! 0) = StepGallery"
    using nav_button_clickable [of StepExtracting initial] by (simp add: len)
  have b: "isClickable (renderNavigation StepLogo ! 1) \<longleftrightarrow>
             int 1 < currentIndex StepLogo \<or> nav_id (steps ! 1) = StepGallery"
    using nav_button_clickable [of StepLogo initial] by (simp add: len)
  have c: "isClickable (renderNavigation StepExtracting ! 4)"
    using nav_button_clickable [of StepExtracting initial] by simp
  show ?thesis using a b c by (simp add: len currentIndex_values steps_def)
qed

section \<open>Properties of the logo upload\<close>

lemma handleLogoUpload_stored:
  "brand h \<noteq> None \<Longrightarrow>
     storedLogo (handleLogoUpload mk fl pos sz h) =
       Some \<lparr>logo_id = str ''logo-1'', logo_url = mk fl, position = pos, logo_size = sz,
             opacity = 1\<rparr>"
  by (auto simp: handleLogoUpload_def storedLogo_def Let_def)

lemma handleLogoUpload_no_brand: "brand h = None \<Longrightarrow> handleLogoUpload mk fl pos sz h = h"
  by (simp add: handleLogoUpload_def)

lemma storedLogo_handleExtract: "storedLogo (snd (handleExtract lt u h)) = None"
  by (simp add: handleExtract_state storedLogo_def MOCK_BRAND_def)

lemma storedLogo_handleGenerate: "storedLogo (handleGenerate lt clk pl pr ty h) = storedLogo h"
  by (simp add: handleGenerate_def storedLogo_def Let_def)

lemma storedLogo_clickNav: "storedLogo (clickNav i h) = storedLogo h"
  by (simp add: clickNav_def storedLogo_def Let_def)

lemma fire_opacity:
  assumes inv: "storedOpacity h \<in> {None, Some 1}"
  shows "storedOpacity (fire lt mk a h) \<in> {None, Some 1}"
proof (cases a)
  case (Extract u)
  with inv show ?thesis by (simp add: storedOpacity_def storedLogo_handleExtract)
next
  case ConfirmBrand
  with inv show ?thesis by (simp add: storedOpacity_def storedLogo_def handleConfirmBrand_def)
next
  case (LogoUpload fl pos sz)
  show ?thesis
  proof (cases "brand h")
    case None
    with inv LogoUpload show ?thesis by (simp add: handleLogoUpload_no_brand)
  next
    case (Some b)
    then have "brand h \<noteq> None" by simp
    from handleLogoUpload_stored [OF this, of mk fl pos sz] inv LogoUpload
    show ?thesis by (simp add: storedOpacity_def)
  qed
next
  case (SubmitForm f clk)
  with inv show ?thesis
    by (simp add: storedOpacity_def storedLogo_handleGenerate split: option.split)
next
  case (NavClick i)
  with inv show ?thesis by (simp add: storedOpacity_def storedLogo_clickNav)
next
  case GenerateMore
  with inv show ?thesis by (simp add: storedOpacity_def storedLogo_def)
qed

lemma run_opacity:
  "storedOpacity h \<in> {None, Some 1} \<Longrightarrow> storedOpacity (run lt mk acts h) \<in> {None, Some 1}"
proof (induction acts arbitrary: h)
  case Nil
  then show ?case by simp
next
  case (Cons a acts)
  from Cons.prems have "storedOpacity (fire lt mk a h) \<in> {None, Some 1}" by (rule fire_opacity)
  then show ?case using Cons.IH by simp
qed

lemma logo_session_state:
  "run demo_load_time demo_object_url logo_session initial =
     initial\<lparr>step := StepGenerate, extractionStatus := last stages,
       brand := Some ((MOCK_BRAND demo_load_time)
         \<lparr>websiteUrl := str ''https://example.com'',
          logo := Some \<lparr>logo_id = str ''logo-1'', logo_url = demo_object_url 7,
            position = BottomRight, logo_size = Medium, opacity = 1\<rparr>\<rparr>)\<rparr>"
  by (simp add: logo_session_def handleExtract_state handleConfirmBrand_def handleLogoUpload_def
      Let_def initial_def)

section \<open>Blank prompts\<close>

lemma dropWhile_all: "(\<forall>c \<in> set (dropWhile P s). P c) \<longleftrightarrow> (\<forall>c \<in> set s. P c)"
  by (induction s) auto

lemma trim_empty_iff: "trim s = [] \<longleftrightarrow> (\<forall>c \<in> set s. isWhiteSpace c)"
proof -
  have "trim s = [] \<longleftrightarrow> (\<forall>c \<in> set (rev (dropWhile isWhiteSpace s)). isWhiteSpace c)"
    by (simp add: trim_def dropWhile_eq_Nil_conv)
  also have "\<dots> \<longleftrightarrow> (\<forall>c \<in> set (dropWhile isWhiteSpace s). isWhiteSpace c)" by simp
  also have "\<dots> \<longleftrightarrow> (\<forall>c \<in> set s. isWhiteSpace c)" by (rule dropWhile_all)
  finally show ?thesis .
qed

lemma truthy_trim: "truthy (trim s) \<longleftrightarrow> (\<exists>c \<in> set s. \<not> isWhiteSpace c)"
  by (auto simp: truthy_def trim_empty_iff)

section \<open>Properties of generation\<close>

lemma demo_form_not_blank: "truthy (trim (prompt_input demo_form))"
proof -
  have "of_char CHR ''A'' \<in> set (prompt_input demo_form)"
    by (simp add: demo_form_def str_def)
  moreover have "\<not> isWhiteSpace (of_char CHR ''A'')" by (simp add: isWhiteSpace_def)
  ultimately show ?thesis unfolding truthy_trim by blast
qed

lemma no_logo_session_state:
  "run demo_load_time demo_object_url no_logo_session initial =
     initial\<lparr>step := StepGenerate, extractionStatus := last stages,
       brand := Some ((MOCK_BRAND demo_load_time)\<lparr>websiteUrl := str ''https://example.com''\<rparr>)\<rparr>"
proof -
  have "(4::nat) < length steps" by (simp add: steps_def)
  then show ?thesis
    using gallery_button [of StepConfirm]
    by (simp add: no_logo_session_def handleExtract_state clickNav_def Let_def
        renderNavigation_length initial_def)
qed

text \<open>
  C1, as stated, fails. After an extraction the brand has no logo; the gallery button and
  then the button for more content lead to the generation form without a logo upload, and
  a submission there stores one asset for that brand.
\<close>

theorem generate_without_logo_counterexample:
  "map_option logo (brand (run demo_load_time demo_object_url no_logo_session initial)) = Some None
   \<and> generatedContent (run demo_load_time demo_object_url no_logo_session initial) = []
   \<and> length (generatedContent
        (run demo_load_time demo_object_url (no_logo_session @ [SubmitForm demo_form demo_clock])
           initial)) = 1
   \<and> map brandId (generatedContent
        (run demo_load_time demo_object_url (no_logo_session @ [SubmitForm demo_form demo_clock])
           initial)) = [str ''demo-1'']"
proof -
  have app: "run demo_load_time demo_object_url (no_logo_session @ [SubmitForm demo_form demo_clock])
      initial = fire demo_load_time demo_object_url (SubmitForm demo_form demo_clock)
        (run demo_load_time demo_object_url no_logo_session initial)"
    by (simp add: no_logo_session_def)
  show ?thesis
    unfolding app no_logo_session_state
    using demo_form_not_blank
    by (simp add: submitDisabled_def handleSubmit_def handleGenerate_def newContent_def Let_def
        initial_def MOCK_BRAND_def or_else_def truthy_def str_def)
qed

text \<open>
  C1, amended. \<^verbatim>\<open>handleGenerate\<close> has no logo check and no failure: for every request,
  also against a brand whose logo is null, it puts exactly one new asset in front of the
  generated content and goes to the gallery step, and what it does is the same whatever
  the brand's logo is. The logo is only arranged by the order of the steps: from the logo
  step, an upload for an existing brand sets the logo and opens the generation step.
\<close>

theorem generate_has_no_logo_check:
  "generatedContent (handleGenerate lt clk pl pr ty h) =
      newContent lt clk pl pr ty h # generatedContent h
   \<and> step (handleGenerate lt clk pl pr ty h) = StepGallery
   \<and> (brand h = Some b \<longrightarrow>
        handleGenerate lt clk pl pr ty (h\<lparr>brand := Some (b\<lparr>logo := l\<rparr>)\<rparr>) =
          (handleGenerate lt clk pl pr ty h)\<lparr>brand := Some (b\<lparr>logo := l\<rparr>)\<rparr>)
   \<and> (step h = StepLogo \<and> brand h \<noteq> None \<longrightarrow>
        step (fire lt mk (LogoUpload fl pos sz) h) = StepGenerate
        \<and> storedLogo (fire lt mk (LogoUpload fl pos sz) h) \<noteq> None)"
  by (auto simp: handleGenerate_def newContent_def Let_def handleLogoUpload_def storedLogo_def)

theorem generate_has_no_logo_check_witness:
  "brand (snd (handleExtract demo_load_time (str ''https://example.com'') initial)) =
      Some ((MOCK_BRAND demo_load_time)\<lparr>websiteUrl := str ''https://example.com''\<rparr>)
   \<and> generatedContent
        (handleGenerate demo_load_time demo_clock (str ''facebook'') (str ''Hola'') Video
          ((snd (handleExtract demo_load_time (str ''https://example.com'') initial))
             \<lparr>brand := Some ((MOCK_BRAND demo_load_time)
                \<lparr>websiteUrl := str ''https://example.com'', logo := None\<rparr>)\<rparr>))
      = generatedContent
        (handleGenerate demo_load_time demo_clock (str ''facebook'') (str ''Hola'') Video
          (snd (handleExtract demo_load_time (str ''https://example.com'') initial)))
   \<and> step (handleConfirmBrand
        (snd (handleExtract demo_load_time (str ''https://example.com'') initial))) = StepLogo
   \<and> storedLogo (fire demo_load_time demo_object_url (LogoUpload 7 Center Small)
        (handleConfirmBrand
          (snd (handleExtract demo_load_time (str ''https://example.com'') initial)))) \<noteq> None"
proof -
  let ?h = "snd (handleExtract demo_load_time (str ''https://example.com'') initial)"
  let ?b = "(MOCK_BRAND demo_load_time)\<lparr>websiteUrl := str ''https://example.com''\<rparr>"
  have b: "brand ?h = Some ?b" by (simp add: handleExtract_state)
  have s: "step (handleConfirmBrand ?h) = StepLogo \<and> brand (handleConfirmBrand ?h) \<noteq> None"
    by (simp add: handleConfirmBrand_def handleExtract_state)
  have "handleGenerate demo_load_time demo_clock (str ''facebook'') (str ''Hola'') Video
          (?h\<lparr>brand := Some (?b\<lparr>logo := None\<rparr>)\<rparr>) =
        (handleGenerate demo_load_time demo_clock (str ''facebook'') (str ''Hola'') Video ?h)
          \<lparr>brand := Some (?b\<lparr>logo := None\<rparr>)\<rparr>"
    using b generate_has_no_logo_check
        [where h = ?h and b = ?b and l = None and lt = demo_load_time and clk = demo_clock
           and pl = "str ''facebook''" and pr = "str ''Hola''" and ty = Video
           and mk = demo_object_url and fl = 7 and pos = Center and sz = Small]
    by simp
  then have g: "generatedContent
        (handleGenerate demo_load_time demo_clock (str ''facebook'') (str ''Hola'') Video
          (?h\<lparr>brand := Some (?b\<lparr>logo := None\<rparr>)\<rparr>)) =
      generatedContent
        (handleGenerate demo_load_time demo_clock (str ''facebook'') (str ''Hola'') Video ?h)"
    by simp
  have u: "storedLogo (fire demo_load_time demo_object_url (LogoUpload 7 Center Small)
        (handleConfirmBrand ?h)) \<noteq> None"
    using s generate_has_no_logo_check
        [where h = "handleConfirmBrand ?h" and b = ?b and l = None and lt = demo_load_time
           and clk = demo_clock and pl = "str ''facebook''" and pr = "str ''Hola''" and ty = Video
           and mk = demo_object_url and fl = 7 and pos = Center and sz = Small]
    by simp
  show ?thesis using b g s u by simp
qed

section \<open>New assets and their ids\<close>

lemma handleGenerate_content:
  "generatedContent (handleGenerate lt clk pl pr ty h) =
     newContent lt clk pl pr ty h # generatedContent h"
  by (simp add: handleGenerate_def newContent_def Let_def)

lemma newContent_fields:
  "content_id (newContent lt clk pl pr ty h) = toString (now clk)"
  "content_type (newContent lt clk pl pr ty h) = ty"
  "platform (newContent lt clk pl pr ty h) = pl"
  "prompt (newContent lt clk pl pr ty h) = pr"
  by (simp_all add: newContent_def)


section \<open>Properties of the generation form\<close>

lemma logo_session_step: "step (run demo_load_time demo_object_url logo_session initial) = StepGenerate"
  by (simp add: logo_session_state)

lemma logo_session_idle: "\<not> isGenerating (run demo_load_time demo_object_url logo_session initial)"
  unfolding logo_session_state by (simp add: initial_def)

lemma logo_session_content: "generatedContent (run demo_load_time demo_object_url logo_session initial) = []"
  unfolding logo_session_state by (simp add: initial_def)

lemma long_form_not_blank: "truthy (trim (prompt_input long_form))"
proof -
  have "(0x61 :: 16 word) \<in> set (prompt_input long_form)" by (simp add: long_form_def)
  moreover have "\<not> isWhiteSpace 0x61" by (simp add: isWhiteSpace_def)
  ultimately show ?thesis unfolding truthy_trim by blast
qed

text \<open>
  C3, as stated, fails: a prompt of 501 characters passes \<^verbatim>\<open>handleSubmit\<close>, and on the
  generation step its submission stores an asset with that prompt.
\<close>

theorem submit_long_prompt_counterexample:
  "length (prompt_input long_form) = 501
   \<and> handleSubmit long_form = Some (str ''instagram_post'', replicate 501 0x61, Image)
   \<and> map prompt
        (generatedContent (fire demo_load_time demo_object_url (SubmitForm long_form demo_clock)
           (run demo_load_time demo_object_url logo_session initial))) = [replicate 501 0x61]"
proof -
  have a: "length (prompt_input long_form) = 501" by (simp add: long_form_def)
  have b: "handleSubmit long_form = Some (str ''instagram_post'', replicate 501 0x61, Image)"
    using long_form_not_blank by (simp add: handleSubmit_def) (simp add: long_form_def PLATFORMS_def)
  have c: "fire demo_load_time demo_object_url (SubmitForm long_form demo_clock)
           (run demo_load_time demo_object_url logo_session initial) =
        handleGenerate demo_load_time demo_clock (str ''instagram_post'') (replicate 501 0x61) Image
          (run demo_load_time demo_object_url logo_session initial)"
    using long_form_not_blank logo_session_step logo_session_idle
    by (simp add: b submitDisabled_def)
  show ?thesis
    unfolding c by (simp add: a b handleGenerate_content newContent_fields logo_session_content)
qed

text \<open>
  C3, amended. The form checks only that the prompt is not blank. A submission whose prompt
  is empty or consists of whitespace only does not invoke generation: the submit button is
  disabled, \<^verbatim>\<open>handleSubmit\<close> calls nothing, the page state stays as it is, and no error
  is produced. A submission whose prompt has a non-whitespace character and at most 500
  characters invokes generation with the selected platform's id, the prompt as typed
  (untrimmed) and the content type; on the generation step, when no generation is running,
  this is exactly one call of \<^verbatim>\<open>handleGenerate\<close>.
\<close>

theorem submit_requires_non_blank_prompt:
  "((\<forall>c \<in> set (prompt_input f). isWhiteSpace c) \<longrightarrow>
       handleSubmit f = None \<and> submitDisabled f g \<and> fire lt mk (SubmitForm f clk) h = h)
   \<and> ((\<exists>c \<in> set (prompt_input f). \<not> isWhiteSpace c) \<and> length (prompt_input f) \<le> 500 \<longrightarrow>
       handleSubmit f = Some (platform_id (selectedPlatform f), prompt_input f, contentType f)
       \<and> (step h = StepGenerate \<and> \<not> isGenerating h \<longrightarrow>
            fire lt mk (SubmitForm f clk) h =
              handleGenerate lt clk (platform_id (selectedPlatform f)) (prompt_input f)
                (contentType f) h))"
  by (simp add: handleSubmit_def submitDisabled_def truthy_trim)

theorem submit_requires_non_blank_prompt_witness:
  "prompt_input blank_form = [0x20, 0x09, 0x20]
   \<and> isWhiteSpace 0x20 \<and> isWhiteSpace 0x09
   \<and> handleSubmit blank_form = None
   \<and> fire demo_load_time demo_object_url (SubmitForm blank_form demo_clock)
        (run demo_load_time demo_object_url logo_session initial)
      = run demo_load_time demo_object_url logo_session initial
   \<and> hd (prompt_input demo_form) = 0x41 \<and> \<not> isWhiteSpace 0x41
   \<and> length (prompt_input demo_form) = 35
   \<and> handleSubmit demo_form =
        Some (str ''instagram_post'', str ''Anuncio de nuevo producto innovador'', Image)
   \<and> fire demo_load_time demo_object_url (SubmitForm demo_form demo_clock)
        (run demo_load_time demo_object_url logo_session initial)
      = handleGenerate demo_load_time demo_clock (str ''instagram_post'')
          (str ''Anuncio de nuevo producto innovador'') Image
          (run demo_load_time demo_object_url logo_session initial)"
proof -
  let ?h = "run demo_load_time demo_object_url logo_session initial"
  have blank: "\<forall>c \<in> set (prompt_input blank_form). isWhiteSpace c"
    by (simp add: blank_form_def isWhiteSpace_def)
  have full: "\<exists>c \<in> set (prompt_input demo_form). \<not> isWhiteSpace c"
    using demo_form_not_blank by (simp add: truthy_trim)
  have len: "length (prompt_input demo_form) \<le> 500"
    by (simp add: demo_form_def str_def)
  have fields: "platform_id (selectedPlatform demo_form) = str ''instagram_post''"
    "prompt_input demo_form = str ''Anuncio de nuevo producto innovador''"
    "contentType demo_form = Image"
    by (simp_all add: demo_form_def PLATFORMS_def)
  note t1 = submit_requires_non_blank_prompt
      [where f = blank_form and g = False and lt = demo_load_time and mk = demo_object_url
         and clk = demo_clock and h = ?h]
  note t2 = submit_requires_non_blank_prompt
      [where f = demo_form and g = False and lt = demo_load_time and mk = demo_object_url
         and clk = demo_clock and h = ?h]
  from t1 blank have a: "handleSubmit blank_form = None
      \<and> fire demo_load_time demo_object_url (SubmitForm blank_form demo_clock) ?h = ?h"
    by blast
  from t2 full len logo_session_step logo_session_idle
  have b: "handleSubmit demo_form =
        Some (platform_id (selectedPlatform demo_form), prompt_input demo_form, contentType demo_form)
      \<and> fire demo_load_time demo_object_url (SubmitForm demo_form demo_clock) ?h =
          handleGenerate demo_load_time demo_clock (platform_id (selectedPlatform demo_form))
            (prompt_input demo_form) (contentType demo_form) ?h"
    by blast
  have c: "prompt_input blank_form = [0x20, 0x09, 0x20] \<and> isWhiteSpace 0x20 \<and> isWhiteSpace 0x09
      \<and> hd (prompt_input demo_form) = 0x41 \<and> \<not> isWhiteSpace 0x41
      \<and> length (prompt_input demo_form) = 35"
    by (simp add: blank_form_def demo_form_def isWhiteSpace_def str_def)
  from b have b': "handleSubmit demo_form =
        Some (str ''instagram_post'', str ''Anuncio de nuevo producto innovador'', Image)
      \<and> fire demo_load_time demo_object_url (SubmitForm demo_form demo_clock) ?h =
          handleGenerate demo_load_time demo_clock (str ''instagram_post'')
            (str ''Anuncio de nuevo producto innovador'') Image ?h"
    by (simp only: fields)
  show ?thesis using a b' c by blast
qed

section \<open>Properties of downloads\<close>

lemma toString_demo: "toString 1767607200000 = str ''1767607200000''"
  by (simp add: toString_def toStringNat.simps digit_def str_def)

lemma toString_later: "toString 1767607203000 = str ''1767607203000''"
  by (simp add: toString_def toStringNat.simps digit_def str_def)

lemma str_append: "str a @ str b = str (a @ b)"
  by (simp add: str_def)

lemma handleDownload_requests:
  "requests (snd (handleDownload net clk item fmt br)) = requests br @ [url item]"
  by (simp add: handleDownload_def downloadContent_def Let_def split: option.split)

lemma handleDownload_answered:
  "net (url item) = Some r \<Longrightarrow>
     handleDownload net clk item fmt br =
       (Inr (), br\<lparr>requests := requests br @ [url item],
                    saved := saved br @
                      [(platform item @ str ''_'' @ toString (now clk) @ str ''.''
                          @ format_string (format fmt), body r)]\<rparr>)"
  by (simp add: handleDownload_def downloadContent_def Let_def)

lemma handleDownload_rejected:
  "net (url item) = None \<Longrightarrow>
     handleDownload net clk item fmt br =
       (Inl NetworkError, br\<lparr>requests := requests br @ [url item]\<rparr>)"
  by (simp add: handleDownload_def downloadContent_def Let_def)

text \<open>
  C4, as stated, fails: \<^verbatim>\<open>handleDownload\<close> called with a video asset and the pdf format
  does not fail; it fetches the asset and saves it under a name ending in .pdf.
\<close>

theorem video_pdf_download_counterexample:
  "content_type demo_video = Video
   \<and> handleDownload first_answer demo_clock demo_video pdf_format empty_browser =
       (Inr (), \<lparr>requests = [url demo_video],
                 saved = [(str ''instagram_story_1767607200000.pdf'', [0x89, 0x50, 0x4E, 0x47])]\<rparr>)"
proof -
  have name: "platform demo_video @ str ''_'' @ toString (now demo_clock) @ str ''.''
      @ format_string (format pdf_format) = str ''instagram_story_1767607200000.pdf''"
    by (simp add: demo_video_def newContent_fields demo_clock_def toString_demo pdf_format_def
        str_append)
  have ans: "first_answer (url demo_video) = Some \<lparr>ok = True, body = [0x89, 0x50, 0x4E, 0x47]\<rparr>"
    by (simp add: first_answer_def)
  have "handleDownload first_answer demo_clock demo_video pdf_format empty_browser =
      (Inr (), empty_browser\<lparr>requests := requests empty_browser @ [url demo_video],
         saved := saved empty_browser @
           [(str ''instagram_story_1767607200000.pdf'', [0x89, 0x50, 0x4E, 0x47])]\<rparr>)"
    using ans handleDownload_answered
      [where net = first_answer and item = demo_video and clk = demo_clock and fmt = pdf_format
         and br = empty_browser and r = "\<lparr>ok = True, body = [0x89, 0x50, 0x4E, 0x47]\<rparr>"]
    by (simp only: name response.simps)
  then show ?thesis
    by (simp add: empty_browser_def) (simp add: demo_video_def newContent_fields)
qed

lemma modalFormats_video:
  "content_type item = Video \<Longrightarrow>
     map (\<lambda>f. (format f, quality f)) (modalFormats item) =
       [(Mp4, Hd), (Mp4, FourK), (Mov, Hd), (Webm, Hd)]"
  by (simp add: modalFormats_def videoFormats_def)

lemma modalFormats_video_names:
  "content_type item = Video \<Longrightarrow> map format (modalFormats item) = [Mp4, Mp4, Mov, Webm]"
  by (simp add: modalFormats_def videoFormats_def)

lemma modalClick_format:
  "modalClick item b = Some p \<Longrightarrow> fst p = item \<and> format (snd p) \<in> set (map format (modalFormats item))"
proof (cases b)
  case (FormatButton i)
  assume "modalClick item b = Some p"
  with FormatButton have "i < length (modalFormats item)" and "p = (item, modalFormats item ! i)"
    by (auto split: if_splits)
  then show ?thesis by simp
next
  case QuickButton
  assume "modalClick item b = Some p"
  with QuickButton have p: "p = (item, modalFormats item ! 0)" by simp
  have "0 < length (modalFormats item)"
    by (simp add: modalFormats_def videoFormats_def imageFormats_def)
  with p show ?thesis by simp
qed

text \<open>
  C4, amended. For a video asset the download modal offers exactly mp4 (hd), mp4 (4k),
  mov (hd) and webm (hd): pdf is never offered, and every download started from the
  modal's buttons, the quick download included, is for the same asset with a format other
  than pdf. \<^verbatim>\<open>handleDownload\<close> itself validates nothing: for every asset, format and
  quality it succeeds exactly when the fetch of the asset's url is answered, and then saves
  the answer's body under the name platform_now.format; it fails (with the fetch's
  rejection) exactly when the fetch is not answered.
\<close>

theorem video_modal_offers_no_pdf:
  "(content_type item = Video \<longrightarrow>
      map (\<lambda>f. (format f, quality f)) (modalFormats item) =
        [(Mp4, Hd), (Mp4, FourK), (Mov, Hd), (Webm, Hd)]
      \<and> (\<forall>b p. modalClick item b = Some p \<longrightarrow> fst p = item \<and> format (snd p) \<noteq> Pdf))
   \<and> (fst (handleDownload net clk item fmt br) = Inr () \<longleftrightarrow> net (url item) \<noteq> None)
   \<and> (fst (handleDownload net clk item fmt br) = Inl NetworkError \<longleftrightarrow> net (url item) = None)
   \<and> (net (url item) = Some r \<longrightarrow>
        saved (snd (handleDownload net clk item fmt br)) =
          saved br @ [(platform item @ str ''_'' @ toString (now clk) @ str ''.''
                         @ format_string (format fmt), body r)])"
proof -
  have offered: "fst p = item \<and> format (snd p) \<noteq> Pdf"
    if "content_type item = Video" and "modalClick item b = Some p" for b p
    using modalClick_format [OF that(2)] modalFormats_video_names [OF that(1)] by auto
  have dl: "(fst (handleDownload net clk item fmt br) = Inr () \<longleftrightarrow> net (url item) \<noteq> None)
      \<and> (fst (handleDownload net clk item fmt br) = Inl NetworkError \<longleftrightarrow> net (url item) = None)"
    by (cases "net (url item)") (simp_all add: handleDownload_answered handleDownload_rejected)
  have named: "saved (snd (handleDownload net clk item fmt br)) =
          saved br @ [(platform item @ str ''_'' @ toString (now clk) @ str ''.''
                         @ format_string (format fmt), body r)]"
    if "net (url item) = Some r"
    using that by (simp add: handleDownload_answered)
  show ?thesis using offered dl named modalFormats_video [of item] by blast
qed

theorem video_modal_offers_no_pdf_witness:
  "content_type demo_video = Video
   \<and> modalClick demo_video QuickButton = Some (demo_video, videoFormats ! 0)
   \<and> format (videoFormats ! 0) \<noteq> Pdf
   \<and> format (videoFormats ! 0) = Mp4
   \<and> first_answer (url demo_video) = Some \<lparr>ok = True, body = [0x89, 0x50, 0x4E, 0x47]\<rparr>
   \<and> fst (handleDownload first_answer demo_clock demo_video pdf_format empty_browser) = Inr ()
   \<and> no_answer (url demo_video) = None
   \<and> fst (handleDownload no_answer demo_clock demo_video pdf_format empty_browser) = Inl NetworkError"
proof -
  have v: "content_type demo_video = Video" by (simp add: demo_video_def newContent_fields)
  have q: "modalClick demo_video QuickButton = Some (demo_video, videoFormats ! 0)"
    by (simp add: modalFormats_def v)
  have n1: "first_answer (url demo_video) = Some \<lparr>ok = True, body = [0x89, 0x50, 0x4E, 0x47]\<rparr>"
    by (simp add: first_answer_def)
  have n2: "no_answer (url demo_video) = None" by (simp add: no_answer_def)
  note t1 = video_modal_offers_no_pdf
      [where item = demo_video and net = first_answer and clk = demo_clock and fmt = pdf_format
         and br = empty_browser and r = "\<lparr>ok = True, body = [0x89, 0x50, 0x4E, 0x47]\<rparr>"]
  note t2 = video_modal_offers_no_pdf
      [where item = demo_video and net = no_answer and clk = demo_clock and fmt = pdf_format
         and br = empty_browser and r = "\<lparr>ok = True, body = [0x89, 0x50, 0x4E, 0x47]\<rparr>"]
  from t1 v q have "format (snd (demo_video, videoFormats ! 0)) \<noteq> Pdf" by blast
  then have g: "format (videoFormats ! 0) \<noteq> Pdf" by simp
  have f: "format (videoFormats ! 0) = Mp4" by (simp add: videoFormats_def)
  from t1 n1 have a: "fst (handleDownload first_answer demo_clock demo_video pdf_format empty_browser)
      = Inr ()" by simp
  from t2 n2 have b: "fst (handleDownload no_answer demo_clock demo_video pdf_format empty_browser)
      = Inl NetworkError" by simp
  show ?thesis using v q g f n1 n2 a b by blast
qed

lemma getDownloadUrl_requests:
  "requests (snd (getDownloadUrl parseJSON env net cid f q br)) =
     requests br @ [API_BASE_URL env @ str ''/api/generation/download/'' @ cid
                      @ str ''?format='' @ f @ str ''&quality='' @ q]"
  by (simp add: getDownloadUrl_def Let_def split: option.split)

text \<open>
  C5, as stated, fails: two requests for the same asset, format and quality send two
  fetches, and when the server's answer has changed in between, the second download has
  other bytes than the first. Nothing was cached.
\<close>

theorem download_twice_counterexample:
  "snd (handleDownload second_answer later_clock demo_image png_format
         (snd (handleDownload first_answer demo_clock demo_image png_format empty_browser))) =
     \<lparr>requests = [url demo_image, url demo_image],
      saved = [(str ''instagram_post_1767607200000.png'', [0x89, 0x50, 0x4E, 0x47]),
               (str ''instagram_post_1767607203000.png'', [0xFF, 0xD8, 0xFF, 0xE0])]\<rparr>"
proof -
  have name1: "platform demo_image @ str ''_'' @ toString (now demo_clock) @ str ''.''
      @ format_string (format png_format) = str ''instagram_post_1767607200000.png''"
    by (simp add: demo_image_def MOCK_CONTENT_def demo_clock_def toString_demo png_format_def
        imageFormats_def str_append)
  have name2: "platform demo_image @ str ''_'' @ toString (now later_clock) @ str ''.''
      @ format_string (format png_format) = str ''instagram_post_1767607203000.png''"
    by (simp add: demo_image_def MOCK_CONTENT_def later_clock_def toString_later png_format_def
        imageFormats_def str_append)
  have one: "handleDownload first_answer demo_clock demo_image png_format empty_browser =
      (Inr (), \<lparr>requests = [url demo_image],
         saved = [(str ''instagram_post_1767607200000.png'', [0x89, 0x50, 0x4E, 0x47])]\<rparr>)"
    unfolding handleDownload_def Let_def name1
    by (simp add: downloadContent_def first_answer_def empty_browser_def)
  have two: "handleDownload second_answer later_clock demo_image png_format
        \<lparr>requests = [url demo_image],
         saved = [(str ''instagram_post_1767607200000.png'', [0x89, 0x50, 0x4E, 0x47])]\<rparr> =
      (Inr (), \<lparr>requests = [url demo_image, url demo_image],
         saved = [(str ''instagram_post_1767607200000.png'', [0x89, 0x50, 0x4E, 0x47]),
                  (str ''instagram_post_1767607203000.png'', [0xFF, 0xD8, 0xFF, 0xE0])]\<rparr>)"
    unfolding handleDownload_def Let_def name2
    by (simp add: downloadContent_def second_answer_def)
  show ?thesis by (simp only: one two snd_conv)
qed

text \<open>
  C5, amended. Every download request fetches the asset's url again; nothing is transcoded
  and nothing is cached, so two requests for the same key send two fetches. The bytes
  handed to the user are the body of that request's answer, under the name
  platform_now.format; they do not depend on format or quality. Two requests yield the
  same bytes when the server answers both with the same body. A rejected fetch saves
  nothing. \<^verbatim>\<open>getDownloadUrl\<close> likewise sends one request to the download endpoint per
  call.
\<close>

theorem download_fetches_every_time:
  "requests (snd (handleDownload net clk item fmt br)) = requests br @ [url item]
   \<and> (net (url item) = Some r \<longrightarrow>
        handleDownload net clk item fmt br =
          (Inr (), br\<lparr>requests := requests br @ [url item],
                       saved := saved br @
                         [(platform item @ str ''_'' @ toString (now clk) @ str ''.''
                             @ format_string (format fmt), body r)]\<rparr>))
   \<and> (net (url item) = None \<longrightarrow>
        handleDownload net clk item fmt br =
          (Inl NetworkError, br\<lparr>requests := requests br @ [url item]\<rparr>))
   \<and> requests (snd (handleDownload net' clk' item fmt (snd (handleDownload net clk item fmt br))))
        = requests br @ [url item, url item]
   \<and> (net (url item) = Some r \<and> net' (url item) = Some r \<longrightarrow>
        map snd (saved (snd (handleDownload net' clk' item fmt
                               (snd (handleDownload net clk item fmt br)))))
          = map snd (saved br) @ [body r, body r])
   \<and> requests (snd (getDownloadUrl parseJSON env net cid f q br)) =
        requests br @ [API_BASE_URL env @ str ''/api/generation/download/'' @ cid
                         @ str ''?format='' @ f @ str ''&quality='' @ q]"
proof -
  have twice: "requests (snd (handleDownload net' clk' item fmt
        (snd (handleDownload net clk item fmt br)))) = requests br @ [url item, url item]"
    by (simp add: handleDownload_requests)
  have same: "map snd (saved (snd (handleDownload net' clk' item fmt
        (snd (handleDownload net clk item fmt br))))) = map snd (saved br) @ [body r, body r]"
    if "net (url item) = Some r" and "net' (url item) = Some r"
    using that by (simp add: handleDownload_answered)
  show ?thesis
    using twice same handleDownload_requests [of net clk item fmt br]
      handleDownload_answered [of net item r clk fmt br]
      handleDownload_rejected [of net item clk fmt br]
      getDownloadUrl_requests [of parseJSON env net cid f q br]
    by blast
qed

theorem download_fetches_every_time_witness:
  "first_answer (url demo_image) = Some \<lparr>ok = True, body = [0x89, 0x50, 0x4E, 0x47]\<rparr>
   \<and> fst (handleDownload first_answer demo_clock demo_image png_format empty_browser) = Inr ()
   \<and> map snd (saved (snd (handleDownload first_answer later_clock demo_image png_format
        (snd (handleDownload first_answer demo_clock demo_image png_format empty_browser)))))
      = [[0x89, 0x50, 0x4E, 0x47], [0x89, 0x50, 0x4E, 0x47]]
   \<and> no_answer (url demo_image) = None
   \<and> handleDownload no_answer demo_clock demo_image png_format empty_browser =
        (Inl NetworkError, \<lparr>requests = [url demo_image], saved = []\<rparr>)"
proof -
  let ?r = "\<lparr>ok = True, body = [0x89, 0x50, 0x4E, 0x47]\<rparr>"
  have n1: "first_answer (url demo_image) = Some ?r" by (simp add: first_answer_def)
  have n2: "no_answer (url demo_image) = None" by (simp add: no_answer_def)
  note t1 = download_fetches_every_time
      [where net = first_answer and net' = first_answer and clk = demo_clock and clk' = later_clock
         and item = demo_image and fmt = png_format and br = empty_browser and r = ?r
         and env = None and cid = "[]" and f = "[]" and q = "[]" and parseJSON = Some]
  note t2 = download_fetches_every_time
      [where net = no_answer and net' = first_answer and clk = demo_clock and clk' = later_clock
         and item = demo_image and fmt = png_format and br = empty_browser and r = ?r
         and env = None and cid = "[]" and f = "[]" and q = "[]" and parseJSON = Some]
  from t1 n1 have a: "fst (handleDownload first_answer demo_clock demo_image png_format empty_browser)
      = Inr ()" by simp
  from t1 n1 have b: "map snd (saved (snd (handleDownload first_answer later_clock demo_image
        png_format (snd (handleDownload first_answer demo_clock demo_image png_format empty_browser)))))
      = map snd (saved empty_browser) @ [body ?r, body ?r]" by blast
  from t2 n2 have c: "handleDownload no_answer demo_clock demo_image png_format empty_browser =
      (Inl NetworkError, empty_browser\<lparr>requests := requests empty_browser @ [url demo_image]\<rparr>)"
    by blast
  show ?thesis using n1 n2 a b c by (simp add: empty_browser_def)
qed

section \<open>Properties of the page with handlers in flight\<close>

lemma handleGenerate_two_parts:
  "handleGenerate lt clk pl pr ty h =
     generateFinish lt clk (brand h) pl pr ty (h\<lparr>isGenerating := True\<rparr>)"
  by (simp add: handleGenerate_def generateFinish_def newContent_def Let_def)

















lemma storedLogo_extractContinue:
  "storedLogo (home (extractContinue lt u rest p)) = (if rest = [] then None else storedLogo (home p))"
  by (cases rest) (simp_all add: storedLogo_def Let_def MOCK_BRAND_def)

lemma storedLogo_generateFinish: "storedLogo (generateFinish lt clk b pl pr ty h) = storedLogo h"
  by (simp add: generateFinish_def storedLogo_def Let_def)

lemma act_opacity:
  assumes inv: "storedOpacity (home p) \<in> {None, Some 1}"
  shows "storedOpacity (home (act lt mk a p)) \<in> {None, Some 1}"
proof (cases a)
  case (Extract u)
  with inv show ?thesis
    by (simp add: extractStart_def Let_def storedOpacity_def storedLogo_extractContinue)
       (simp add: storedLogo_def)
next
  case (SubmitForm f clk)
  with inv show ?thesis
    by (auto simp: generateStart_def storedOpacity_def storedLogo_def split: option.split)
next
  case ConfirmBrand
  with fire_opacity [OF inv, of lt mk a] show ?thesis by simp
next
  case (LogoUpload fl pos sz)
  with fire_opacity [OF inv, of lt mk a] show ?thesis by simp
next
  case (NavClick i)
  with fire_opacity [OF inv, of lt mk a] show ?thesis by simp
next
  case GenerateMore
  with fire_opacity [OF inv, of lt mk a] show ?thesis by simp
qed

lemma resume_opacity:
  assumes inv: "storedOpacity (home p) \<in> {None, Some 1}"
  shows "storedOpacity (home (resume lt i stamp p)) \<in> {None, Some 1}"
proof (cases "i < length (pending p) \<and> due (pending p ! i) \<le> time p")
  case False
  with inv show ?thesis by (auto simp: resume_def)
next
  case True
  show ?thesis
  proof (cases "pending p ! i")
    case (Extraction u rest d)
    with True inv show ?thesis
      by (simp add: resume_def Let_def storedOpacity_def storedLogo_extractContinue)
  next
    case (Generation b pl pr ty d)
    with True inv show ?thesis
      by (simp add: resume_def Let_def storedOpacity_def storedLogo_generateFinish)
  qed
qed

lemma advance_opacity:
  "storedOpacity (home p) \<in> {None, Some 1} \<Longrightarrow>
     storedOpacity (home (advance lt mk m p)) \<in> {None, Some 1}"
proof -
  assume inv: "storedOpacity (home p) \<in> {None, Some 1}"
  obtain w x where m: "m = (w, x)" by (cases m) auto
  from inv have q: "storedOpacity (home (p\<lparr>time := time p + int w\<rparr>)) \<in> {None, Some 1}" by simp
  show ?thesis
  proof (cases x)
    case (User a)
    with m act_opacity [OF q, of lt mk a] show ?thesis by simp
  next
    case (Resume i stamp)
    with m resume_opacity [OF q, of lt i stamp] show ?thesis by simp
  qed
qed

lemma play_opacity:
  "storedOpacity (home p) \<in> {None, Some 1} \<Longrightarrow>
     storedOpacity (home (play lt mk ms p)) \<in> {None, Some 1}"
proof (induction ms arbitrary: p)
  case Nil
  then show ?case by simp
next
  case (Cons m ms)
  from Cons.prems have "storedOpacity (home (advance lt mk m p)) \<in> {None, Some 1}"
    by (rule advance_opacity)
  then show ?case using Cons.IH by simp
qed

lemma start_opacity: "storedOpacity (home (start t)) \<in> {None, Some 1}"
  by (simp add: start_def storedOpacity_def storedLogo_def initial_def)

lemma submit_then_resume:
  assumes "step (home p) = StepGenerate" and "\<not> isGenerating (home p)"
    and "handleSubmit f = Some (pl, pr, ty)" and "3000 \<le> v"
  shows "home (advance lt mk (v, Resume (length (pending p)) stamp)
                 (advance lt mk (w, User (SubmitForm f clk)) p)) =
         handleGenerate lt \<lparr>now = time p + int w + int v, isoString = stamp\<rparr> pl pr ty (home p)"
proof -
  from assms(3) have "truthy (trim (prompt_input f))"
    by (simp add: handleSubmit_def split: if_splits)
  with assms show ?thesis
    by (simp add: submitDisabled_def generateStart_def resume_def Let_def removeAt_def
        handleGenerate_two_parts generateFinish_def newContent_def)
qed






section \<open>Properties of the stored opacity\<close>

lemma new_row_opacity:
  "new_row ses (v\<lparr>val_logo_opacity := x\<rparr>) = (new_row ses v)\<lparr>col_logo_opacity := stored (Some 1) x\<rparr>"
  by (simp add: new_row_def)

lemma insert_brand_opacity:
  "insert_brand ses (v\<lparr>val_logo_opacity := x\<rparr>) db =
     (case insert_brand ses v db of
        Inl e \<Rightarrow> Inl e
      | Inr db' \<Rightarrow> Inr (db\<lparr>brands := brands db @ [(new_row ses v)\<lparr>col_logo_opacity := stored (Some 1) x\<rparr>]\<rparr>))"
  by (auto simp: insert_brand_def new_row_opacity Let_def)

text \<open>
  C6, as stated, fails: nothing rejects an opacity outside [0,1]. The brands table, the
  store of the logo, accepts a row whose \<^verbatim>\<open>logo_opacity\<close> is 1.5 and stores it as
  given.
\<close>

theorem out_of_range_opacity_stored_counterexample:
  "insert_brand demo_session demo_values demo_database =
     Inr \<lparr>users_ids = [7],
          brands =
            [\<lparr>col_id = Some 1001, col_user_id = Some 7, col_name = Some (str ''TechVenture''),
              col_website_url = Some (str ''https://techventure.com''),
              col_colors = Some default_colors, col_typography = Some default_typography,
              col_logo_url = Some (str ''https://example.com/logo.png''),
              col_logo_position = Some (str ''bottom-right''),
              col_logo_size = Some (str ''medium''),
              col_logo_opacity = Some (3 / 2),
              col_tone = Some (str ''profesional''),
              col_keywords = Some [str ''innovaci'' @ [0xF3] @ str ''n'', str ''calidad''],
              col_industry = None, col_tone_analysis = None, col_visual_analysis = None,
              col_extraction_status = Some (str ''pending''),
              col_created_at = Some 1767607200, col_updated_at = Some 1767607200\<rparr>]\<rparr>
   \<and> \<not> ((3 / 2 :: real) \<le> 1)"
  by (simp add: insert_brand_def new_row_def demo_session_def demo_values_def demo_database_def
      Let_def)

text \<open>
  C6, amended. A logo upload carries no opacity value: for every file, position and size
  \<^verbatim>\<open>handleLogoUpload\<close> stores the literal opacity 1 (and stores nothing when there is no
  brand), so every logo the page holds has opacity 1, in every state the page reaches, with
  handlers in flight or run one after the other. No opacity is rejected and none is clamped:
  the upload reads none, and the brands table has no check on \<^verbatim>\<open>logo_opacity\<close>: an
  insert that is accepted is accepted with any opacity, which is stored as given (1.0 when
  left out), and an insert that is rejected is rejected whatever the opacity.
\<close>

theorem upload_stores_opacity_one:
  "(storedOpacity (home (play lt mk ms (start t0))) = Some x \<longrightarrow> x = 1)
   \<and> (storedOpacity (run lt mk acts initial) = Some x \<longrightarrow> x = 1)
   \<and> (brand h \<noteq> None \<longrightarrow>
        storedLogo (handleLogoUpload mk fl pos sz h) =
          Some \<lparr>logo_id = str ''logo-1'', logo_url = mk fl, position = pos, logo_size = sz,
                opacity = 1\<rparr>)
   \<and> (brand h = None \<longrightarrow> handleLogoUpload mk fl pos sz h = h)
   \<and> (insert_brand ses v db = Inr db' \<longrightarrow>
        insert_brand ses (v\<lparr>val_logo_opacity := Given y\<rparr>) db =
          Inr (db\<lparr>brands := brands db @ [(new_row ses v)\<lparr>col_logo_opacity := Some y\<rparr>]\<rparr>)
        \<and> insert_brand ses (v\<lparr>val_logo_opacity := Omitted\<rparr>) db =
          Inr (db\<lparr>brands := brands db @ [(new_row ses v)\<lparr>col_logo_opacity := Some 1\<rparr>]\<rparr>))
   \<and> (insert_brand ses v db = Inl e \<longrightarrow>
        insert_brand ses (v\<lparr>val_logo_opacity := Given y\<rparr>) db = Inl e)"
proof -
  have "storedOpacity (home (play lt mk ms (start t0))) \<in> {None, Some 1}"
    using start_opacity by (rule play_opacity)
  then have a: "storedOpacity (home (play lt mk ms (start t0))) = Some x \<longrightarrow> x = 1" by auto
  have "storedOpacity initial \<in> {None, Some 1}"
    by (simp add: storedOpacity_def storedLogo_def initial_def)
  then have "storedOpacity (run lt mk acts initial) \<in> {None, Some 1}" by (rule run_opacity)
  then have b: "storedOpacity (run lt mk acts initial) = Some x \<longrightarrow> x = 1" by auto
  have c: "insert_brand ses v db = Inr db' \<longrightarrow>
        insert_brand ses (v\<lparr>val_logo_opacity := Given y\<rparr>) db =
          Inr (db\<lparr>brands := brands db @ [(new_row ses v)\<lparr>col_logo_opacity := Some y\<rparr>]\<rparr>)
        \<and> insert_brand ses (v\<lparr>val_logo_opacity := Omitted\<rparr>) db =
          Inr (db\<lparr>brands := brands db @ [(new_row ses v)\<lparr>col_logo_opacity := Some 1\<rparr>]\<rparr>)"
    by (simp add: insert_brand_opacity)
  have d: "insert_brand ses v db = Inl e \<longrightarrow>
        insert_brand ses (v\<lparr>val_logo_opacity := Given y\<rparr>) db = Inl e"
    by (simp add: insert_brand_opacity)
  show ?thesis
    using a b c d handleLogoUpload_stored [of h mk fl pos sz]
      handleLogoUpload_no_brand [of h mk fl pos sz]
    by blast
qed

lemma uploading_page:
  "play demo_load_time demo_object_url uploading (start page_load) =
     \<lparr>home = initial\<lparr>step := StepGenerate, extractionStatus := last stages,
        brand := Some ((MOCK_BRAND demo_load_time)
          \<lparr>websiteUrl := str ''https://example.com'',
           logo := Some \<lparr>logo_id = str ''logo-1'', logo_url = demo_object_url 7,
             position = BottomRight, logo_size = Medium, opacity = 1\<rparr>\<rparr>)\<rparr>,
      pending = [], time = page_load + 18500\<rparr>"
  by (simp add: uploading_def start_def extractStart_def resume_def removeAt_def Let_def stages_def
      handleConfirmBrand_def handleLogoUpload_def initial_def)

theorem upload_stores_opacity_one_witness:
  "storedOpacity (home (play demo_load_time demo_object_url uploading (start page_load))) = Some 1
   \<and> storedOpacity (run demo_load_time demo_object_url logo_session initial) = Some 1
   \<and> storedLogo (handleLogoUpload demo_object_url 7 TopLeft Large
         (snd (handleExtract demo_load_time (str ''https://example.com'') initial))) =
       Some \<lparr>logo_id = str ''logo-1'', logo_url = demo_object_url 7, position = TopLeft,
             logo_size = Large, opacity = 1\<rparr>
   \<and> handleLogoUpload demo_object_url 7 TopLeft Large initial = initial
   \<and> insert_brand demo_session (demo_values\<lparr>val_logo_opacity := Given (- 1 / 2)\<rparr>) demo_database =
       Inr (demo_database\<lparr>brands := brands demo_database @
              [(new_row demo_session demo_values)\<lparr>col_logo_opacity := Some (- 1 / 2)\<rparr>]\<rparr>)
   \<and> insert_brand demo_session (demo_values\<lparr>val_name := Null, val_logo_opacity := Given 2\<rparr>)
         demo_database = Inl not_null_violation"
proof -
  let ?h = "snd (handleExtract demo_load_time (str ''https://example.com'') initial)"
  have a: "storedOpacity (home (play demo_load_time demo_object_url uploading (start page_load)))
      = Some 1"
    unfolding uploading_page by (simp add: storedOpacity_def storedLogo_def)
  have b: "storedOpacity (run demo_load_time demo_object_url logo_session initial) = Some 1"
    unfolding logo_session_state by (simp add: storedOpacity_def storedLogo_def)
  have c: "brand ?h \<noteq> None" by (simp add: handleExtract_state)
  have d: "brand initial = None" by (simp add: initial_def)
  have e: "insert_brand demo_session demo_values demo_database =
      Inr (demo_database\<lparr>brands := brands demo_database @ [new_row demo_session demo_values]\<rparr>)"
    by (simp add: insert_brand_def new_row_def demo_session_def demo_values_def demo_database_def
        Let_def)
  have f: "insert_brand demo_session (demo_values\<lparr>val_name := Null\<rparr>) demo_database =
      Inl not_null_violation"
    by (simp add: insert_brand_def new_row_def demo_session_def demo_values_def demo_database_def
        Let_def)
  note t1 = upload_stores_opacity_one
      [where lt = demo_load_time and mk = demo_object_url and ms = uploading and ?t0.0 = page_load
         and x = 1 and acts = logo_session and h = ?h and fl = 7 and pos = TopLeft and sz = Large
         and ses = demo_session and v = demo_values and db = demo_database
         and db' = "demo_database\<lparr>brands := brands demo_database @ [new_row demo_session demo_values]\<rparr>"
         and y = "- 1 / 2" and e = not_null_violation]
  note t2 = upload_stores_opacity_one
      [where lt = demo_load_time and mk = demo_object_url and ms = uploading and ?t0.0 = page_load
         and x = 1 and acts = logo_session and h = initial and fl = 7 and pos = TopLeft and sz = Large
         and ses = demo_session and v = "demo_values\<lparr>val_name := Null\<rparr>" and db = demo_database
         and db' = demo_database and y = 2 and e = not_null_violation]
  from t1 c have g: "storedLogo (handleLogoUpload demo_object_url 7 TopLeft Large ?h) =
       Some \<lparr>logo_id = str ''logo-1'', logo_url = demo_object_url 7, position = TopLeft,
             logo_size = Large, opacity = 1\<rparr>"
    by blast
  from t2 d have i: "handleLogoUpload demo_object_url 7 TopLeft Large initial = initial" by blast
  from t1 e have j: "insert_brand demo_session (demo_values\<lparr>val_logo_opacity := Given (- 1 / 2)\<rparr>)
        demo_database =
       Inr (demo_database\<lparr>brands := brands demo_database @
              [(new_row demo_session demo_values)\<lparr>col_logo_opacity := Some (- 1 / 2)\<rparr>]\<rparr>)"
    by blast
  from t2 f have k: "insert_brand demo_session
        (demo_values\<lparr>val_name := Null, val_logo_opacity := Given 2\<rparr>) demo_database =
       Inl not_null_violation"
    by blast
  show ?thesis using a b g i j k by blast
qed

end
